theory Spec2Isabelle
  imports Complex_Main "HOL-Library.Multiset" "HOL-Library.Product_Lexorder"
begin

section \<open>Common values\<close>

text \<open>
  The Python exceptions the modelled functions can raise. Every raise of the source is an
  \<open>Inl\<close> branch of the model.
\<close>

datatype py_error = ValueError | IndexError | KeyError | TypeError | DatabaseError

text \<open>
  A numpy float64 result. Finite values are idealised as reals; the two special results a
  division by zero produces in numpy (it warns and returns, it does not raise) are kept
  as separate constructors, so that HOL's \<open>x / 0 = 0\<close> never stands in for them.
\<close>

datatype npfloat = Num real | NaN | PosInf | NegInf

definition np_div :: "real \<Rightarrow> real \<Rightarrow> npfloat" where
  "np_div a b =
     (if b \<noteq> 0 then Num (a / b)
      else if a = 0 then NaN
      else if 0 < a then PosInf else NegInf)"

section \<open>models/metrics.py\<close>

text \<open>
  Elementwise binary operations of numpy on one-dimensional arrays: equal lengths combine
  pointwise, an array of length one is broadcast against the other, any other pair of
  lengths raises ValueError.
\<close>

definition np_binop :: "(real \<Rightarrow> real \<Rightarrow> real) \<Rightarrow> real list \<Rightarrow> real list \<Rightarrow> py_error + real list" where
  "np_binop f xs ys =
     (if length xs = length ys then Inr (map2 f xs ys)
      else if length xs = 1 then Inr (map (f (hd xs)) ys)
      else if length ys = 1 then Inr (map (\<lambda>x. f x (hd ys)) xs)
      else Inl ValueError)"

text \<open>\<open>weights = np.where(is_holiday, 5.0, 1.0)\<close>\<close>

definition holiday_weight :: "bool \<Rightarrow> real" where
  "holiday_weight h = (if h then 5 else 1)"

definition np_where_weights :: "bool list \<Rightarrow> real list" where
  "np_where_weights is_holiday = map holiday_weight is_holiday"

definition calculate_wmae :: "real list \<Rightarrow> real list \<Rightarrow> bool list \<Rightarrow> py_error + npfloat" where
  "calculate_wmae y_true y_pred is_holiday =
     (let weights = np_where_weights is_holiday in
      case np_binop (\<lambda>a b. \<bar>a - b\<bar>) y_true y_pred of
        Inl e \<Rightarrow> Inl e
      | Inr absolute_errors \<Rightarrow>
          (case np_binop (\<lambda>w a. w * a) weights absolute_errors of
             Inl e \<Rightarrow> Inl e
           | Inr weighted_errors \<Rightarrow>
               Inr (np_div (sum_list weighted_errors) (sum_list weights))))"

section \<open>Frames, dates and logging\<close>

text \<open>
  A pandas DataFrame is modelled as the list of its rows, in frame order, and a column as
  an accessor function on rows. A date or timestamp is the number of its day (Python's
  proleptic Gregorian ordinal, \<open>date.toordinal()\<close>), so that adding a
  \<open>timedelta(weeks=w)\<close> is adding \<open>7 * w\<close>. The minimum and maximum of an empty column
  is pandas' null (\<open>NaT\<close>), modelled as \<open>None\<close>; every comparison with a null is false.
\<close>

type_synonym date = int

definition series_max :: "int list \<Rightarrow> int option" where
  "series_max xs = (if xs = [] then None else Some (Max (set xs)))"

definition series_min :: "int list \<Rightarrow> int option" where
  "series_min xs = (if xs = [] then None else Some (Min (set xs)))"

definition timedelta_weeks :: "int \<Rightarrow> int" where
  "timedelta_weeks w = 7 * w"

definition date_lt :: "date \<Rightarrow> date option \<Rightarrow> bool" where
  "date_lt d c = (case c of None \<Rightarrow> False | Some c' \<Rightarrow> d < c')"

definition date_ge :: "date \<Rightarrow> date option \<Rightarrow> bool" where
  "date_ge d c = (case c of None \<Rightarrow> False | Some c' \<Rightarrow> c' \<le> d)"

text \<open>
  A record written through the \<open>logging\<close> module: its level, the fixed part of the
  message and the values formatted into it.
\<close>

datatype log_level = INFO | WARNING | ERROR

datatype log_arg = ArgCount nat | ArgDate "date option" | ArgText string

datatype log_record = Log log_level string "log_arg list"


section \<open>models/trainer.py: the temporal split\<close>

text \<open>
  \<open>WalmartForecaster.create_train_val_split\<close>. The frame is sorted by \<open>feature_date\<close>
  (\<open>sort_key\<close> keeps rows of equal date in frame order; pandas' default quicksort leaves
  their order open, and nothing below depends on it), the cut-off is the last date minus
  \<open>val_weeks\<close> weeks, and the two parts are the rows before it and the rows on or after
  it. The method contains no \<open>raise\<close>; it writes three records at level INFO and returns
  the pair.
\<close>

definition create_train_val_split ::
  "('r \<Rightarrow> date) \<Rightarrow> 'r list \<Rightarrow> int \<Rightarrow> ('r list \<times> 'r list) \<times> log_record list" where
  "create_train_val_split feature_date df val_weeks =
     (let df1 = sort_key feature_date df;
          max_date = series_max (map feature_date df1);
          val_start_date = map_option (\<lambda>m. m - timedelta_weeks val_weeks) max_date;
          train_df = filter (\<lambda>r. date_lt (feature_date r) val_start_date) df1;
          val_df = filter (\<lambda>r. date_ge (feature_date r) val_start_date) df1;
          logs = [Log INFO ''Train/Val split created:'' [],
                  Log INFO ''Train: samples (min to max)''
                    [ArgCount (length train_df),
                     ArgDate (series_min (map feature_date train_df)),
                     ArgDate (series_max (map feature_date train_df))],
                  Log INFO ''Val: samples (min to max)''
                    [ArgCount (length val_df),
                     ArgDate (series_min (map feature_date val_df)),
                     ArgDate (series_max (map feature_date val_df))]]
      in ((train_df, val_df), logs))"

section \<open>Calendar arithmetic of the date library\<close>

text \<open>
  The calendar fields the repository reads from a date (\<open>isocalendar\<close>, \<open>month\<close>, \<open>day\<close>,
  pandas' \<open>dt.quarter\<close>, \<open>dt.is_month_start\<close>, \<open>dt.is_month_end\<close>) belong to Python's
  \<open>datetime\<close> and to pandas, not to the repository. They are written here as the reference
  implementation of \<open>datetime\<close> computes them, on day ordinals; Python's \<open>divmod\<close> and \<open>//\<close>
  round towards minus infinity, as \<open>div\<close> and \<open>mod\<close> on \<open>int\<close> do. The bounds of the
  representable years are left out.
\<close>

definition is_leap :: "int \<Rightarrow> bool" where
  "is_leap year = (year mod 4 = 0 \<and> (year mod 100 \<noteq> 0 \<or> year mod 400 = 0))"

definition days_before_year :: "int \<Rightarrow> int" where
  "days_before_year year = (let y = year - 1 in y * 365 + y div 4 - y div 100 + y div 400)"

definition DAYS_IN_MONTH :: "int list" where
  "DAYS_IN_MONTH = [-1, 31, 28, 31, 30, 31, 30, 31, 31, 30, 31, 30, 31]"

definition DAYS_BEFORE_MONTH :: "int list" where
  "DAYS_BEFORE_MONTH = [-1, 0, 31, 59, 90, 120, 151, 181, 212, 243, 273, 304, 334]"

definition days_in_month :: "int \<Rightarrow> int \<Rightarrow> int" where
  "days_in_month year month =
     (if month = 2 \<and> is_leap year then 29 else DAYS_IN_MONTH ! nat month)"

definition days_before_month :: "int \<Rightarrow> int \<Rightarrow> int" where
  "days_before_month year month =
     DAYS_BEFORE_MONTH ! nat month + (if month > 2 \<and> is_leap year then 1 else 0)"

definition ymd2ord :: "int \<Rightarrow> int \<Rightarrow> int \<Rightarrow> date" where
  "ymd2ord year month day = days_before_year year + days_before_month year month + day"

definition ord2ymd :: "date \<Rightarrow> int \<times> int \<times> int" where
  "ord2ymd ordinal =
     (let n = ordinal - 1;
          n400 = n div 146097; n = n mod 146097;
          year = n400 * 400 + 1;
          n100 = n div 36524; n = n mod 36524;
          n4 = n div 1461; n = n mod 1461;
          n1 = n div 365; n = n mod 365;
          year = year + n100 * 100 + n4 * 4 + n1
      in if n1 = 4 \<or> n100 = 4 then (year - 1, 12, 31)
         else
           (let leapyear = (n1 = 3 \<and> (n4 \<noteq> 24 \<or> n100 = 3));
                month = (n + 50) div 32;
                preceding = DAYS_BEFORE_MONTH ! nat month + (if month > 2 \<and> leapyear then 1 else 0)
            in if preceding > n
               then (let month' = month - 1;
                         preceding' = preceding -
                           (DAYS_IN_MONTH ! nat month' + (if month' = 2 \<and> leapyear then 1 else 0))
                     in (year, month', n - preceding' + 1))
               else (year, month, n - preceding + 1)))"

definition year_of :: "date \<Rightarrow> int" where
  "year_of d = fst (ord2ymd d)"

definition month_of :: "date \<Rightarrow> int" where
  "month_of d = fst (snd (ord2ymd d))"

definition day_of :: "date \<Rightarrow> int" where
  "day_of d = snd (snd (ord2ymd d))"

definition weekday :: "date \<Rightarrow> int" where
  "weekday d = (d + 6) mod 7"

definition isoweek1monday :: "int \<Rightarrow> date" where
  "isoweek1monday year =
     (let firstday = ymd2ord year 1 1;
          firstweekday = (firstday + 6) mod 7;
          week1monday = firstday - firstweekday
      in if firstweekday > 3 then week1monday + 7 else week1monday)"

definition isocalendar_week :: "date \<Rightarrow> int" where
  "isocalendar_week today =
     (let year = year_of today;
          week = (today - isoweek1monday year) div 7
      in if week < 0 then (today - isoweek1monday (year - 1)) div 7 + 1
         else if week \<ge> 52 \<and> today \<ge> isoweek1monday (year + 1) then 1
         else week + 1)"

definition dt_quarter :: "date \<Rightarrow> int" where
  "dt_quarter d = (month_of d - 1) div 3 + 1"

definition dt_is_month_start :: "date \<Rightarrow> bool" where
  "dt_is_month_start d = (day_of d = 1)"

definition dt_is_month_end :: "date \<Rightarrow> bool" where
  "dt_is_month_end d = (day_of d = days_in_month (year_of d) (month_of d))"

definition day_of_year :: "date \<Rightarrow> int" where
  "day_of_year d = d - ymd2ord (year_of d) 1 1 + 1"

section \<open>models/generate\_forecasts.py\<close>

text \<open>
  A row of the latest-features frame is a pandas Series: a map from column names to
  values, a value being a number or a date. Reading a column that a row lacks raises
  KeyError; using a date where a number is needed, or a number where a date is needed,
  raises TypeError. The trained model is a parameter: the ordered list of its feature names
  (\<open>feature_cols\<close>) and its \<open>predict\<close>, which may raise. Log output is not modelled here,
  apart from the two expressions inside a log call that can raise.
\<close>

datatype pyval = Number real | Date date

type_synonym series = "string \<rightharpoonup> pyval"

fun sequence :: "(py_error + 'a) list \<Rightarrow> py_error + 'a list" where
  "sequence [] = Inr []"
| "sequence (x # xs) =
     (case x of
        Inl e \<Rightarrow> Inl e
      | Inr v \<Rightarrow> (case sequence xs of Inl e \<Rightarrow> Inl e | Inr vs \<Rightarrow> Inr (v # vs)))"

text \<open>\<open>int(row[name])\<close>: truncation towards zero.\<close>

definition py_int :: "series \<Rightarrow> string \<Rightarrow> py_error + int" where
  "py_int row name =
     (case row name of
        None \<Rightarrow> Inl KeyError
      | Some (Date d) \<Rightarrow> Inl TypeError
      | Some (Number x) \<Rightarrow> Inr (if 0 \<le> x then \<lfloor>x\<rfloor> else \<lceil>x\<rceil>))"

definition date_column :: "series list \<Rightarrow> string \<Rightarrow> py_error + date list" where
  "date_column df name =
     sequence (map (\<lambda>row. case row name of
                             None \<Rightarrow> Inl KeyError
                           | Some (Number x) \<Rightarrow> Inl TypeError
                           | Some (Date d) \<Rightarrow> Inr d) df)"

text \<open>
  Python's \<open>round(x, n)\<close> on the idealised reals: to the nearest multiple of \<open>10^-n\<close>,
  a tie going to the even one.
\<close>

definition round_half_even :: "real \<Rightarrow> int" where
  "round_half_even x =
     (let f = \<lfloor>x\<rfloor>; d = x - of_int f
      in if d < 1 / 2 then f
         else if 1 / 2 < d then f + 1
         else if even f then f else f + 1)"

definition py_round :: "real \<Rightarrow> nat \<Rightarrow> real" where
  "py_round x n = of_int (round_half_even (x * 10 ^ n)) / 10 ^ n"

text \<open>\<open>future_dates.index(forecast_date)\<close>: the first position holding the date.\<close>

fun index_of :: "'a list \<Rightarrow> 'a \<Rightarrow> nat" where
  "index_of [] y = 0"
| "index_of (x # xs) y = (if x = y then 0 else Suc (index_of xs y))"

text \<open>
  One row of the forecast table; the fields are the keys of the dictionary the source
  appends, prefixed with \<open>fc_\<close>.
\<close>

record forecast =
  fc_store_id :: int
  fc_dept_id :: int
  fc_forecast_date :: date
  fc_predicted_sales :: real
  fc_prediction_lower :: real
  fc_prediction_upper :: real
  fc_model_name :: string
  fc_model_version :: string
  fc_confidence_score :: real

text \<open>
  The feature row of one forecast: a copy of the base row in which the calendar fields are
  overwritten from the forecast date.
\<close>

definition flag :: "bool \<Rightarrow> pyval" where
  "flag b = Number (if b then 1 else 0)"

definition num :: "int \<Rightarrow> pyval" where
  "num i = Number (of_int i)"

definition build_feature_row :: "string list \<Rightarrow> series \<Rightarrow> date \<Rightarrow> series" where
  "build_feature_row feature_cols row forecast_date =
     (let feature_row = row;
          feature_row = feature_row(''week_of_year'' \<mapsto> num (isocalendar_week forecast_date));
          feature_row = feature_row(''month'' \<mapsto> num (month_of forecast_date));
          feature_row = feature_row(''quarter'' \<mapsto> num ((month_of forecast_date - 1) div 3 + 1));
          feature_row = (if ''year'' \<in> set feature_cols
                         then feature_row(''year'' \<mapsto> num (year_of forecast_date)) else feature_row);
          feature_row = (if ''day_of_week'' \<in> set feature_cols
                         then feature_row(''day_of_week'' \<mapsto> num (weekday forecast_date))
                         else feature_row);
          feature_row = (if ''day_of_month'' \<in> set feature_cols
                         then feature_row(''day_of_month'' \<mapsto> num (day_of forecast_date))
                         else feature_row);
          feature_row = (if ''day_of_year'' \<in> set feature_cols
                         then feature_row(''day_of_year'' \<mapsto> num (day_of_year forecast_date))
                         else feature_row);
          feature_row = feature_row(''is_month_start'' \<mapsto> flag (day_of forecast_date \<le> 7));
          feature_row = feature_row(''is_month_end'' \<mapsto> flag (day_of forecast_date \<ge> 24));
          feature_row = feature_row(''is_quarter_start'' \<mapsto>
                          flag (month_of forecast_date \<in> set [1, 4, 7, 10]));
          feature_row = feature_row(''is_quarter_end'' \<mapsto>
                          flag (month_of forecast_date \<in> set [3, 6, 9, 12]))
      in feature_row)"

text \<open>
  The vector handed to the model: the model's features in the model's order, a feature
  the row lacks being 0.
\<close>

definition feature_vector :: "string list \<Rightarrow> series \<Rightarrow> pyval list" where
  "feature_vector feature_cols feature_row =
     map (\<lambda>c. case feature_row c of None \<Rightarrow> Number 0 | Some v \<Rightarrow> v) feature_cols"

definition forecast_one ::
  "(pyval list \<Rightarrow> py_error + real) \<Rightarrow> string list \<Rightarrow> date list \<Rightarrow> series \<Rightarrow> int \<Rightarrow> int \<Rightarrow> date \<Rightarrow>
   py_error + forecast" where
  "forecast_one predict feature_cols future_dates row store_id dept_id forecast_date =
     (let feature_row = build_feature_row feature_cols row forecast_date;
          X = feature_vector feature_cols feature_row
      in case predict X of
           Inl e \<Rightarrow> Inl e
         | Inr p \<Rightarrow>
             (let pred = max p 0;
                  std_estimate = max (pred * 0.15) 100;
                  lower = max (pred - 1.96 * std_estimate) 0;
                  upper = pred + 1.96 * std_estimate
              in Inr \<lparr>fc_store_id = store_id, fc_dept_id = dept_id,
                       fc_forecast_date = forecast_date,
                       fc_predicted_sales = py_round pred 2,
                       fc_prediction_lower = py_round lower 2,
                       fc_prediction_upper = py_round upper 2,
                       fc_model_name = ''lightgbm_forecaster'',
                       fc_model_version = ''v1.0'',
                       fc_confidence_score =
                         py_round (0.85 - 0.02 * real (index_of future_dates forecast_date)) 4\<rparr>))"

definition forecasts_for_row ::
  "(pyval list \<Rightarrow> py_error + real) \<Rightarrow> string list \<Rightarrow> date list \<Rightarrow> series \<Rightarrow> py_error + forecast list" where
  "forecasts_for_row predict feature_cols future_dates row =
     (case py_int row ''store_id'' of
        Inl e \<Rightarrow> Inl e
      | Inr store_id \<Rightarrow>
          (case py_int row ''dept_id'' of
             Inl e \<Rightarrow> Inl e
           | Inr dept_id \<Rightarrow>
               sequence (map (forecast_one predict feature_cols future_dates row store_id dept_id)
                           future_dates)))"

text \<open>
  \<open>generate_predictions\<close>. The forecast dates are computed once, before the loop over the
  rows, from the largest \<open>feature_date\<close> of the whole frame. With no forecast week the log
  call indexes an empty list (IndexError); with an empty frame the largest date is
  \<open>NaT\<close>, whose \<open>date()\<close> raises ValueError.
\<close>

definition generate_predictions ::
  "(pyval list \<Rightarrow> py_error + real) \<Rightarrow> string list \<Rightarrow> series list \<Rightarrow> int \<Rightarrow> py_error + forecast list" where
  "generate_predictions predict feature_cols features_df forecast_weeks =
     (case date_column features_df ''feature_date'' of
        Inl e \<Rightarrow> Inl e
      | Inr dates \<Rightarrow>
          (let last_date = series_max dates;
               future_dates = map (\<lambda>w. map_option (\<lambda>d. d + timedelta_weeks w) last_date)
                                [1..forecast_weeks]
           in if future_dates = [] then Inl IndexError
              else if hd future_dates = None then Inl ValueError
              else (case sequence (map (forecasts_for_row predict feature_cols (map the future_dates))
                                     features_df) of
                      Inl e \<Rightarrow> Inl e
                    | Inr all_forecasts \<Rightarrow> Inr (concat all_forecasts))))"

text \<open>
  A row as the table of engineered features supplies it: numeric \<open>store_id\<close> and
  \<open>dept_id\<close>, and a date in \<open>feature_date\<close>.
\<close>

definition well_formed_row :: "series \<Rightarrow> bool" where
  "well_formed_row row =
     (case (row ''store_id'', row ''dept_id'', row ''feature_date'') of
        (Some (Number s), Some (Number d), Some (Date t)) \<Rightarrow> True
      | _ \<Rightarrow> False)"

section \<open>models/generate\_forecasts.py: writing the forecasts\<close>

text \<open>
  \<open>write_forecasts\<close> works on the external forecast table in two transactions. The first
  one executes \<open>DELETE FROM forecasts\<close> and commits. The second one is pandas'
  \<open>to_sql(..., if_exists='append')\<close>, which inserts the rows of the frame inside one
  transaction of its own. Either statement may fail in the database; a failed transaction
  is rolled back, leaves the table as it was before that transaction, and its exception
  leaves \<open>write_forecasts\<close>, which has no handler. The table is modelled by the list of its
  rows, the database's behaviour by the place where it fails, if it does, and the function
  returns its outcome together with the successive committed states of the table, the
  prior state first.
\<close>

datatype db_fault = DeleteFails | InsertFails

definition execute_delete :: "db_fault option \<Rightarrow> 'row list \<Rightarrow> py_error + 'row list" where
  "execute_delete fault table = (if fault = Some DeleteFails then Inl DatabaseError else Inr [])"

definition to_sql_append :: "db_fault option \<Rightarrow> 'row list \<Rightarrow> 'row list \<Rightarrow> py_error + 'row list" where
  "to_sql_append fault frame table =
     (if fault = Some InsertFails then Inl DatabaseError else Inr (table @ frame))"

definition write_forecasts ::
  "db_fault option \<Rightarrow> 'row list \<Rightarrow> 'row list \<Rightarrow> (py_error + unit) \<times> 'row list list" where
  "write_forecasts fault forecast_df table =
     (case execute_delete fault table of
        Inl e \<Rightarrow> (Inl e, [table])
      | Inr cleared \<Rightarrow>
          (case to_sql_append fault forecast_df cleared of
             Inl e \<Rightarrow> (Inl e, [table, cleared])
           | Inr written \<Rightarrow> (Inr (), [table, cleared, written])))"

section \<open>models/metrics.py: the other metrics\<close>

text \<open>
  \<open>calculate_mae\<close> and \<open>calculate_rmse\<close> call scikit-learn, which raises ValueError for
  arrays of different lengths and for empty arrays. \<open>calculate_mape\<close> selects the entries
  with a non-zero true value by a boolean mask (IndexError when the mask does not fit the
  predictions) and takes a mean, which is NaN on an empty selection. The float square root
  is a parameter, as above.
\<close>

definition calculate_mae :: "real list \<Rightarrow> real list \<Rightarrow> py_error + npfloat" where
  "calculate_mae y_true y_pred =
     (if length y_true \<noteq> length y_pred \<or> y_true = [] then Inl ValueError
      else Inr (Num (sum_list (map2 (\<lambda>a b. \<bar>a - b\<bar>) y_true y_pred) / real (length y_true))))"

definition calculate_rmse :: "(real \<Rightarrow> real) \<Rightarrow> real list \<Rightarrow> real list \<Rightarrow> py_error + npfloat" where
  "calculate_rmse np_sqrt y_true y_pred =
     (if length y_true \<noteq> length y_pred \<or> y_true = [] then Inl ValueError
      else Inr (Num (np_sqrt (sum_list (map2 (\<lambda>a b. (a - b)\<^sup>2) y_true y_pred)
                              / real (length y_true)))))"

definition calculate_mape :: "real list \<Rightarrow> real list \<Rightarrow> py_error + npfloat" where
  "calculate_mape y_true y_pred =
     (if length y_true \<noteq> length y_pred then Inl IndexError
      else (let selected = filter (\<lambda>(a, b). a \<noteq> 0) (zip y_true y_pred)
            in if selected = [] then Inr NaN
               else Inr (Num (sum_list (map (\<lambda>(a, b). \<bar>(a - b) / a\<bar>) selected)
                              / real (length selected) * 100))))"

record metrics =
  wmae :: npfloat
  mae :: npfloat
  rmse :: npfloat
  mape :: npfloat

definition evaluate_model ::
  "(real \<Rightarrow> real) \<Rightarrow> real list \<Rightarrow> real list \<Rightarrow> bool list \<Rightarrow> py_error + metrics" where
  "evaluate_model np_sqrt y_true y_pred is_holiday =
     (case calculate_wmae y_true y_pred is_holiday of
        Inl e \<Rightarrow> Inl e
      | Inr v_wmae \<Rightarrow>
     (case calculate_mae y_true y_pred of
        Inl e \<Rightarrow> Inl e
      | Inr v_mae \<Rightarrow>
     (case calculate_rmse np_sqrt y_true y_pred of
        Inl e \<Rightarrow> Inl e
      | Inr v_rmse \<Rightarrow>
     (case calculate_mape y_true y_pred of
        Inl e \<Rightarrow> Inl e
      | Inr v_mape \<Rightarrow>
          Inr \<lparr>wmae = v_wmae, mae = v_mae, rmse = v_rmse, mape = v_mape\<rparr>))))"

section \<open>models/trainer.py: training\<close>

text \<open>
  A training frame is the list of its column names and its rows, each row giving a number
  for every column (the frames \<open>train.py\<close> passes on hold no missing values).
\<close>

record train_frame =
  columns :: "string list"
  frame_rows :: "(string \<Rightarrow> real) list"

text \<open>
  \<open>prepare_data\<close>: the feature columns are the columns outside the excluded ones; the
  holiday flags are the truth values of the \<open>is_holiday\<close> column, or all false without it.
  Reading the target of a frame with no \<open>weekly_sales\<close> column raises KeyError.
\<close>

definition exclude_cols :: "string list" where
  "exclude_cols = [''id'', ''store_id'', ''dept_id'', ''feature_date'', ''weekly_sales'', ''created_at'']"

definition prepare_data ::
  "train_frame \<Rightarrow> py_error + (string list \<times> real list list \<times> real list \<times> bool list)" where
  "prepare_data df =
     (let feature_cols = filter (\<lambda>col. col \<notin> set exclude_cols) (columns df);
          X = map (\<lambda>row. map row feature_cols) (frame_rows df)
      in if ''weekly_sales'' \<notin> set (columns df) then Inl KeyError
         else (let y = map (\<lambda>row. row ''weekly_sales'') (frame_rows df);
                   is_holiday = (if ''is_holiday'' \<in> set (columns df)
                                 then map (\<lambda>row. row ''is_holiday'' \<noteq> 0) (frame_rows df)
                                 else replicate (length (frame_rows df)) False)
               in Inr (feature_cols, X, y, is_holiday)))"

text \<open>
  What lies outside the repository is a parameter of \<open>train\<close>: LightGBM (\<open>lgb_train\<close>, which
  may raise; the booster's row-wise prediction and its gain per feature), the MLflow run
  (its identifier; its logging calls are taken to succeed and leave no trace here), the
  clock, the JSON text of the parameters, and the metadata store, which is either up or
  fails on \<open>connect\<close> or on the insert.
\<close>

record 'm environment =
  lgb_train :: "real list list \<Rightarrow> real list \<Rightarrow> (real list list \<times> real list) option \<Rightarrow> py_error + 'm"
  booster_predict :: "'m \<Rightarrow> real list \<Rightarrow> real"
  booster_gain :: "'m \<Rightarrow> real list"
  mlflow_run_id :: string
  clock_now :: int
  params_json :: string
  float_sqrt :: "real \<Rightarrow> real"
  metadata_store_up :: bool

record 'm forecaster =
  model :: "'m option"
  feature_names :: "string list option"
  feature_importance :: "(string \<times> real) list option"

record metadata_row =
  md_run_id :: string
  md_model_name :: string
  md_model_version :: string
  md_wmae :: npfloat
  md_mae :: npfloat
  md_rmse :: npfloat
  md_training_date :: int
  md_parameters :: string
  md_feature_importance :: "(string \<times> real) list option"

text \<open>
  \<open>_save_model_metadata\<close>: connect, build the one-row frame, append it to
  \<open>model_metadata\<close>. There is no handler around either call.
\<close>

definition save_model_metadata ::
  "'m environment \<Rightarrow> 'm forecaster \<Rightarrow> metadata_row list \<Rightarrow> string \<Rightarrow> npfloat \<Rightarrow> npfloat \<Rightarrow> npfloat \<Rightarrow>
   py_error + metadata_row list" where
  "save_model_metadata env self table run_id v_wmae v_mae v_rmse =
     (if \<not> metadata_store_up env then Inl DatabaseError
      else Inr (table @
             [\<lparr>md_run_id = run_id, md_model_name = ''lightgbm_forecaster'',
               md_model_version = ''v1.0'', md_wmae = v_wmae, md_mae = v_mae, md_rmse = v_rmse,
               md_training_date = clock_now env, md_parameters = params_json env,
               md_feature_importance = feature_importance self\<rparr>]))"

text \<open>
  \<open>train\<close>, in the order of the source: the data of both frames is prepared (each call of
  \<open>prepare_data\<close> stores its feature names in the object), the booster is fitted and stored
  in \<open>self.model\<close>, it is evaluated on the training frame and, when there is one, on the
  validation frame, the feature importance is stored, the metadata row is written, and
  the metrics are returned. The method is split here at the fit; an exception of any step
  leaves the method at that step. The result is the outcome (the metrics, or the
  exception), the forecaster object as the call leaves it, and the metadata table.
\<close>

definition prepare_validation ::
  "train_frame option \<Rightarrow> py_error + (string list \<times> real list list \<times> real list \<times> bool list) option" where
  "prepare_validation val_df =
     (case val_df of
        None \<Rightarrow> Inr None
      | Some v \<Rightarrow> (case prepare_data v of Inl e \<Rightarrow> Inl e | Inr p \<Rightarrow> Inr (Some p)))"

definition train_fitted ::
  "'m environment \<Rightarrow> 'm forecaster \<Rightarrow> metadata_row list \<Rightarrow> 'm \<Rightarrow> real list list \<Rightarrow> real list \<Rightarrow> bool list \<Rightarrow>
   (string list \<times> real list list \<times> real list \<times> bool list) option \<Rightarrow>
   (py_error + metrics) \<times> 'm forecaster \<times> metadata_row list" where
  "train_fitted env self table booster X_train y_train is_holiday_train val =
     (case evaluate_model (float_sqrt env) y_train (map (booster_predict env booster) X_train)
             is_holiday_train of
        Inl e \<Rightarrow> (Inl e, self, table)
      | Inr train_metrics \<Rightarrow>
          (case (case val of
                   None \<Rightarrow> Inr train_metrics
                 | Some (vcols, X_val, y_val, is_holiday_val) \<Rightarrow>
                     evaluate_model (float_sqrt env) y_val
                       (map (booster_predict env booster) X_val) is_holiday_val) of
             Inl e \<Rightarrow> (Inl e, self, table)
           | Inr reported \<Rightarrow>
               (let importance = sort_key (\<lambda>(f, g). - g)
                                   (zip (case feature_names self of None \<Rightarrow> [] | Some ns \<Rightarrow> ns)
                                        (booster_gain env booster));
                    self = self\<lparr>feature_importance := Some importance\<rparr>
                in case save_model_metadata env self table (mlflow_run_id env)
                          (wmae reported) (mae reported) (rmse reported) of
                     Inl e \<Rightarrow> (Inl e, self, table)
                   | Inr table' \<Rightarrow> (Inr reported, self, table'))))"

definition train ::
  "'m environment \<Rightarrow> 'm forecaster \<Rightarrow> metadata_row list \<Rightarrow> train_frame \<Rightarrow> train_frame option \<Rightarrow>
   (py_error + metrics) \<times> 'm forecaster \<times> metadata_row list" where
  "train env self table train_df val_df =
     (case prepare_data train_df of
        Inl e \<Rightarrow> (Inl e, self, table)
      | Inr (cols, X_train, y_train, is_holiday_train) \<Rightarrow>
          (let self = self\<lparr>feature_names := Some cols\<rparr>
           in case prepare_validation val_df of
                Inl e \<Rightarrow> (Inl e, self, table)
              | Inr val \<Rightarrow>
                  (let self = (case val of
                                 None \<Rightarrow> self
                               | Some (vcols, rest) \<Rightarrow> self\<lparr>feature_names := Some vcols\<rparr>)
                   in case lgb_train env X_train y_train
                             (map_option (\<lambda>(vcols, X_val, y_val, h). (X_val, y_val)) val) of
                        Inl e \<Rightarrow> (Inl e, self, table)
                      | Inr booster \<Rightarrow>
                          train_fitted env (self\<lparr>model := Some booster\<rparr>) table booster
                            X_train y_train is_holiday_train val)))"

section \<open>data\_pipeline/feature\_engineering.py\<close>

text \<open>
  The columns a builder adds are kept, by name, in a map beside the row they belong to;
  assigning a column that already exists replaces it. A cell is a float (with NaN as
  pandas' missing value), an integer or a boolean. The row labels of a frame (its index)
  are not modelled: every frame is taken to carry distinct labels, as the frames the
  pipeline builds do, so that a column computed from a frame is assigned back row by row.
\<close>

datatype colname =
    week_of_year | month | quarter | is_month_start | is_month_end
  | sales_lag int
  | rolling_mean nat | rolling_std nat | rolling_min nat | rolling_max nat
  | temperature_deviation | fuel_price_change | cpi_change | unemployment_change
  | markdown nat | total_markdown | has_markdown | markdown_count
  | store_type_a | store_type_b | store_type_c | size_normalized

datatype cell = Fl npfloat | Integer int | Boolean bool

type_synonym columns = "colname \<rightharpoonup> cell"

type_synonym 'r frame = "('r \<times> columns) list"

definition opt_cell :: "real option \<Rightarrow> cell" where
  "opt_cell v = (case v of None \<Rightarrow> Fl NaN | Some x \<Rightarrow> Fl (Num x))"

definition assign :: "'r frame \<Rightarrow> colname \<Rightarrow> cell list \<Rightarrow> 'r frame" where
  "assign df name col = map2 (\<lambda>(r, cols) v. (r, cols(name \<mapsto> v))) df col"

text \<open>
  \<open>df.groupby(keys)[col].transform(f)\<close> and \<open>.shift(k)\<close>: the rows of a group are the rows
  of the frame with that key, in frame order; \<open>f\<close> maps the group's series to a series of
  the same length, and each row receives the entry at its own position in its group.
\<close>

definition groupby_transform :: "('r \<Rightarrow> 'g) \<Rightarrow> ('r list \<Rightarrow> 'b list) \<Rightarrow> 'r list \<Rightarrow> 'b list" where
  "groupby_transform grp f df =
     map (\<lambda>p. f (filter (\<lambda>r. grp r = grp (df ! p)) df)
                ! length (filter (\<lambda>r. grp r = grp (df ! p)) (take p df)))
         [0..<length df]"

definition shift :: "int \<Rightarrow> 'a list \<Rightarrow> 'a option list" where
  "shift k xs =
     map (\<lambda>i. let j = int i - k
               in if 0 \<le> j \<and> j < int (length xs) then Some (xs ! nat j) else None)
         [0..<length xs]"

text \<open>\<open>create_temporal_features\<close>\<close>

definition create_temporal_features :: "('r \<Rightarrow> date) \<Rightarrow> 'r frame \<Rightarrow> 'r frame" where
  "create_temporal_features date df =
     (let df = assign df week_of_year (map (\<lambda>(r, c). Integer (isocalendar_week (date r))) df);
          df = assign df month (map (\<lambda>(r, c). Integer (month_of (date r))) df);
          df = assign df quarter (map (\<lambda>(r, c). Integer (dt_quarter (date r))) df);
          df = assign df is_month_start (map (\<lambda>(r, c). Boolean (dt_is_month_start (date r))) df);
          df = assign df is_month_end (map (\<lambda>(r, c). Boolean (dt_is_month_end (date r))) df)
      in df)"

text \<open>
  \<open>create_lag_features\<close>: the frame is sorted by (store\_id, dept\_id, date) inside the
  builder (a sort on several keys is stable in pandas, as \<open>sort_key\<close> is), then one column
  per lag is assigned, the target shifted within each (store\_id, dept\_id) group.
\<close>

definition lag_column ::
  "('r \<Rightarrow> int) \<Rightarrow> ('r \<Rightarrow> int) \<Rightarrow> ('r \<Rightarrow> real) \<Rightarrow> int \<Rightarrow> 'r frame \<Rightarrow> cell list" where
  "lag_column store_id dept_id target lag df =
     map opt_cell
       (groupby_transform (\<lambda>(r, c). (store_id r, dept_id r))
          (\<lambda>g. shift lag (map (\<lambda>(r, c). target r) g)) df)"

definition create_lag_features ::
  "('r \<Rightarrow> int) \<Rightarrow> ('r \<Rightarrow> int) \<Rightarrow> ('r \<Rightarrow> date) \<Rightarrow> ('r \<Rightarrow> real) \<Rightarrow> int list \<Rightarrow> 'r frame \<Rightarrow> 'r frame" where
  "create_lag_features store_id dept_id date target lags df =
     (let df = sort_key (\<lambda>(r, c). (store_id r, dept_id r, date r)) df
      in fold (\<lambda>lag df. assign df (sales_lag lag) (lag_column store_id dept_id target lag df))
              lags df)"

text \<open>
  \<open>create_rolling_features\<close>: trailing windows with \<open>min_periods=1\<close>. The window of row
  \<open>i\<close> holds the last \<open>w\<close> observations up to and including \<open>i\<close>; the standard deviation has
  the \<open>n - 1\<close> denominator and is missing for a single observation. Windows are positive
  (pandas rejects a window below \<open>min_periods\<close>; the pipeline passes 4, 13 and 52).
  The float square root of numpy is a parameter, \<open>np_sqrt\<close>, of everything that takes a
  standard deviation, so that the builders stay executable; nothing proved below depends
  on which function it is.
\<close>

definition window_at :: "nat \<Rightarrow> 'a list \<Rightarrow> nat \<Rightarrow> 'a list" where
  "window_at w xs i = drop (Suc i - w) (take (Suc i) xs)"

definition rolling :: "nat \<Rightarrow> (real list \<Rightarrow> real option) \<Rightarrow> real list \<Rightarrow> real option list" where
  "rolling w stat xs = map (\<lambda>i. stat (window_at w xs i)) [0..<length xs]"

definition mean :: "real list \<Rightarrow> real option" where
  "mean xs = (if xs = [] then None else Some (sum_list xs / real (length xs)))"

definition std :: "(real \<Rightarrow> real) \<Rightarrow> real list \<Rightarrow> real option" where
  "std np_sqrt xs =
     (if length xs < 2 then None
      else (let m = sum_list xs / real (length xs)
            in Some (np_sqrt (sum_list (map (\<lambda>x. (x - m)\<^sup>2) xs) / real (length xs - 1)))))"

definition minimum :: "real list \<Rightarrow> real option" where
  "minimum xs = (if xs = [] then None else Some (Min (set xs)))"

definition maximum :: "real list \<Rightarrow> real option" where
  "maximum xs = (if xs = [] then None else Some (Max (set xs)))"

definition rolling_column ::
  "('r \<Rightarrow> int) \<Rightarrow> ('r \<Rightarrow> int) \<Rightarrow> ('r \<Rightarrow> real) \<Rightarrow> nat \<Rightarrow> (real list \<Rightarrow> real option) \<Rightarrow> 'r frame \<Rightarrow> cell list" where
  "rolling_column store_id dept_id target w stat df =
     map opt_cell
       (groupby_transform (\<lambda>(r, c). (store_id r, dept_id r))
          (\<lambda>g. rolling w stat (map (\<lambda>(r, c). target r) g)) df)"

definition create_rolling_features ::
  "(real \<Rightarrow> real) \<Rightarrow> ('r \<Rightarrow> int) \<Rightarrow> ('r \<Rightarrow> int) \<Rightarrow> ('r \<Rightarrow> date) \<Rightarrow> ('r \<Rightarrow> real) \<Rightarrow> nat list \<Rightarrow>
   'r frame \<Rightarrow> 'r frame" where
  "create_rolling_features np_sqrt store_id dept_id date target windows df =
     (let df = sort_key (\<lambda>(r, c). (store_id r, dept_id r, date r)) df
      in fold (\<lambda>w df.
                 (let df = assign df (rolling_mean w) (rolling_column store_id dept_id target w mean df);
                      df = assign df (rolling_std w) (rolling_column store_id dept_id target w (std np_sqrt) df)
                  in if w = 4
                     then (let df = assign df (rolling_min w)
                                      (rolling_column store_id dept_id target w minimum df);
                               df = assign df (rolling_max w)
                                      (rolling_column store_id dept_id target w maximum df)
                           in df)
                     else df))
              windows df)"

text \<open>
  \<open>create_economic_features\<close>: sorted by (store\_id, date); per store, the temperature's
  deviation from the store mean (missing values skipped by the mean) and the difference
  of each indicator to the row before it in the store's group.
\<close>

definition nanmean :: "real option list \<Rightarrow> real option" where
  "nanmean xs = mean (map the (filter (\<lambda>v. v \<noteq> None) xs))"

definition opt_minus :: "real option \<Rightarrow> real option \<Rightarrow> real option" where
  "opt_minus a b = (case (a, b) of (Some x, Some y) \<Rightarrow> Some (x - y) | _ \<Rightarrow> None)"

definition diff :: "real option list \<Rightarrow> real option list" where
  "diff xs = map (\<lambda>i. if i = 0 then None else opt_minus (xs ! i) (xs ! (i - 1))) [0..<length xs]"

definition create_economic_features ::
  "('r \<Rightarrow> int) \<Rightarrow> ('r \<Rightarrow> date) \<Rightarrow> ('r \<Rightarrow> real option) \<Rightarrow> ('r \<Rightarrow> real option) \<Rightarrow>
   ('r \<Rightarrow> real option) \<Rightarrow> ('r \<Rightarrow> real option) \<Rightarrow> 'r frame \<Rightarrow> 'r frame" where
  "create_economic_features store_id date temperature fuel_price cpi unemployment df =
     (let df = sort_key (\<lambda>(r, c). (store_id r, date r)) df;
          by_store = (\<lambda>col f. map opt_cell
                        (groupby_transform (\<lambda>(r, c). store_id r) (\<lambda>g. f (map (\<lambda>(r, c). col r) g)) df));
          df = assign df temperature_deviation
                 (by_store temperature (\<lambda>x. map (\<lambda>v. opt_minus v (nanmean x)) x));
          df = assign df fuel_price_change (by_store fuel_price diff);
          df = assign df cpi_change (by_store cpi diff);
          df = assign df unemployment_change (by_store unemployment diff)
      in df)"

text \<open>
  \<open>create_markdown_features\<close>: the five markdown columns with missing values filled by 0,
  their sum, the flag that the sum is positive and the number of positive markdowns.
\<close>

definition fillna0 :: "real option \<Rightarrow> real" where
  "fillna0 v = (case v of None \<Rightarrow> 0 | Some x \<Rightarrow> x)"

definition create_markdown_features :: "('r \<Rightarrow> real option list) \<Rightarrow> 'r frame \<Rightarrow> 'r frame" where
  "create_markdown_features markdowns df =
     (let filled = (\<lambda>r. map fillna0 (markdowns r));
          df = fold (\<lambda>k df. assign df (markdown (Suc k)) (map (\<lambda>(r, c). Fl (Num (filled r ! k))) df))
                 [0..<5] df;
          df = assign df total_markdown (map (\<lambda>(r, c). Fl (Num (sum_list (filled r)))) df);
          df = assign df has_markdown
                 (map (\<lambda>(r, c). Integer (if sum_list (filled r) > 0 then 1 else 0)) df);
          df = assign df markdown_count
                 (map (\<lambda>(r, c). Integer (int (length (filter (\<lambda>v. v > 0) (filled r))))) df)
      in df)"

text \<open>
  \<open>DataFrame.merge(..., how='left')\<close>: every left row is kept, in order; it is paired with
  each right row of equal key, or with nothing when there is none.
\<close>

definition left_merge :: "('l \<Rightarrow> 'k) \<Rightarrow> ('s \<Rightarrow> 'k) \<Rightarrow> 'l list \<Rightarrow> 's list \<Rightarrow> ('l \<times> 's option) list" where
  "left_merge lkey rkey left right =
     concat (map (\<lambda>l. case filter (\<lambda>s. rkey s = lkey l) right of
                         [] \<Rightarrow> [(l, None)]
                       | ms \<Rightarrow> map (\<lambda>s. (l, Some s)) ms) left)"

text \<open>
  \<open>create_store_features\<close>: the store's type and size are merged in, the type is one-hot
  encoded, the size is normalised by the mean and the sample standard deviation of the
  merged size column (missing sizes skipped), and the two merged columns are dropped.
\<close>

datatype store_type_t = A | B | C | OtherType string

record store_row =
  st_store_id :: int
  store_type :: store_type_t
  store_size :: real

definition normalise :: "real option \<Rightarrow> real option \<Rightarrow> real option \<Rightarrow> cell" where
  "normalise x m s =
     (case (x, m, s) of
        (Some x', Some m', Some s') \<Rightarrow> Fl (np_div (x' - m') s')
      | _ \<Rightarrow> Fl NaN)"

definition create_store_features ::
  "(real \<Rightarrow> real) \<Rightarrow> ('r \<Rightarrow> int) \<Rightarrow> 'r frame \<Rightarrow> store_row list \<Rightarrow> 'r frame" where
  "create_store_features np_sqrt store_id df stores_df =
     (let merged = left_merge (\<lambda>(r, c). store_id r) st_store_id df stores_df;
          df = map fst merged;
          types = map (\<lambda>(l, s). map_option store_type s) merged;
          sizes = map (\<lambda>(l, s). map_option store_size s) merged;
          onehot = (\<lambda>t. map (\<lambda>v. Integer (if v = Some t then 1 else 0)) types);
          df = assign df store_type_a (onehot A);
          df = assign df store_type_b (onehot B);
          df = assign df store_type_c (onehot C);
          present = map the (filter (\<lambda>v. v \<noteq> None) sizes);
          df = assign df size_normalized (map (\<lambda>v. normalise v (mean present) (std np_sqrt present)) sizes)
      in df)"

text \<open>\<open>engineer_features\<close>: the merge of sales with the indicators, then the six builders.\<close>

record sales_row =
  store_id :: int
  dept_id :: int
  date :: date
  weekly_sales :: real
  is_holiday :: bool

record indicator_row =
  feat_store_id :: int
  feat_date :: date
  temperature :: real
  fuel_price :: real
  markdown1 :: "real option"
  markdown2 :: "real option"
  markdown3 :: "real option"
  markdown4 :: "real option"
  markdown5 :: "real option"
  cpi :: real
  unemployment :: real
  is_holiday_feat :: bool

type_synonym merged_row = "sales_row \<times> indicator_row option"

definition engineer_features ::
  "(real \<Rightarrow> real) \<Rightarrow> sales_row list \<Rightarrow> indicator_row list \<Rightarrow> store_row list \<Rightarrow> merged_row frame" where
  "engineer_features np_sqrt sales_df features_df stores_df =
     (let sid = (\<lambda>m. store_id (fst m)); did = (\<lambda>m. dept_id (fst m));
          day = (\<lambda>m. date (fst m)); sales = (\<lambda>m. weekly_sales (fst m));
          df = map (\<lambda>m. (m, Map.empty))
                 (left_merge (\<lambda>s. (store_id s, date s)) (\<lambda>f. (feat_store_id f, feat_date f))
                    sales_df features_df);
          df = create_temporal_features day df;
          df = create_lag_features sid did day sales [1, 2, 4, 8, 52] df;
          df = create_rolling_features np_sqrt sid did day sales [4, 13, 52] df;
          df = create_economic_features sid day
                 (\<lambda>m. map_option temperature (snd m)) (\<lambda>m. map_option fuel_price (snd m))
                 (\<lambda>m. map_option cpi (snd m)) (\<lambda>m. map_option unemployment (snd m)) df;
          df = create_markdown_features
                 (\<lambda>m. case snd m of
                         None \<Rightarrow> replicate 5 None
                       | Some f \<Rightarrow> [markdown1 f, markdown2 f, markdown3 f, markdown4 f, markdown5 f]) df;
          df = create_store_features np_sqrt sid df stores_df
      in df)"

section \<open>Properties of the weighted error\<close>

lemma holiday_weight_pos: "0 < holiday_weight h"
  by (simp add: holiday_weight_def)

lemma sum_list_weights_pos:
  "hs \<noteq> [] \<Longrightarrow> 0 < sum_list (np_where_weights hs)"
proof (induction hs)
  case Nil
  then show ?case by simp
next
  case (Cons h hs)
  show ?case
  proof (cases "hs = []")
    case True
    then show ?thesis by (simp add: np_where_weights_def holiday_weight_def)
  next
    case False
    with Cons.IH have "0 < sum_list (np_where_weights hs)" by simp
    moreover have "0 < holiday_weight h" by (rule holiday_weight_pos)
    ultimately show ?thesis by (simp add: np_where_weights_def)
  qed
qed

lemma calculate_wmae_equal_lengths:
  assumes "length y_true = length y_pred" and "length holidays = length y_pred"
  shows "calculate_wmae y_true y_pred holidays =
           Inr (np_div (sum_list (map2 (\<lambda>w a. w * a) (np_where_weights holidays)
                                   (map2 (\<lambda>a b. \<bar>a - b\<bar>) y_true y_pred)))
                       (sum_list (np_where_weights holidays)))"
  using assms by (simp add: calculate_wmae_def np_binop_def np_where_weights_def Let_def)

lemma sum_list_map2_nth:
  "length xs = length ys \<Longrightarrow> sum_list (map2 f xs ys) = (\<Sum>i<length ys. f (xs ! i) (ys ! i))"
proof (induction xs ys rule: list_induct2)
  case Nil
  then show ?case by simp
next
  case (Cons x xs y ys)
  have "(\<Sum>i<Suc (length ys). f ((x # xs) ! i) ((y # ys) ! i)) =
        f x y + (\<Sum>i<length ys. f (xs ! i) (ys ! i))"
    by (subst sum.lessThan_Suc_shift) simp
  with Cons show ?case by simp
qed

lemma sum_list_map_nth:
  "sum_list (map f xs) = (\<Sum>i<length xs. f (xs ! i))"
  by (simp add: sum_list_sum_nth atLeast0LessThan)

lemma weighted_errors_const:
  assumes "length hs = length es" and "\<forall>a\<in>set es. a = e"
  shows "sum_list (map2 (\<lambda>w a. w * a) (np_where_weights hs) es) =
         sum_list (np_where_weights hs) * e"
  using assms
proof (induction hs es rule: list_induct2)
  case Nil
  then show ?case by (simp add: np_where_weights_def)
next
  case (Cons h hs a es)
  then show ?case by (simp add: np_where_weights_def algebra_simps)
qed

lemma sum_list_weights_mset:
  assumes "mset hs' = mset hs"
  shows "sum_list (np_where_weights hs') = sum_list (np_where_weights hs)"
proof -
  have "mset (np_where_weights hs') = mset (np_where_weights hs)"
    using assms by (simp add: np_where_weights_def)
  then show ?thesis
    by (metis sum_mset_sum_list)
qed

text \<open>
  Claim C3. For inputs of equal length, \<open>calculate_wmae\<close> weighs a holiday entry 5 and any
  other entry 1 and returns the weighted sum of the absolute errors divided by the sum of
  the weights; on a non-empty input whose prediction equals the truth it is 0;
  \<open>wmae([1000,1000],[1100,1100],[True,False])\<close> is 100; and when every absolute error is the
  same, moving the holiday flags to other indices leaves the result unchanged.
\<close>

theorem calculate_wmae_correct:
  "holiday_weight True = 5 \<and> holiday_weight False = 1
   \<and> (length y_true = length y_pred \<and> length holidays = length y_pred \<longrightarrow>
        calculate_wmae y_true y_pred holidays =
          Inr (np_div (\<Sum>i<length y_pred. holiday_weight (holidays ! i) * \<bar>y_true ! i - y_pred ! i\<bar>)
                      (\<Sum>i<length y_pred. holiday_weight (holidays ! i))))
   \<and> (length flags = length y \<and> y \<noteq> [] \<longrightarrow> calculate_wmae y y flags = Inr (Num 0))
   \<and> calculate_wmae [1000, 1000] [1100, 1100] [True, False] = Inr (Num 100)
   \<and> (length y_true = length y_pred \<and> length holidays = length y_pred
        \<and> mset moved = mset holidays
        \<and> (\<forall>i<length y_pred. \<bar>y_true ! i - y_pred ! i\<bar> = e) \<longrightarrow>
        calculate_wmae y_true y_pred moved = calculate_wmae y_true y_pred holidays)"
proof -
  have formula: "calculate_wmae y_true y_pred holidays =
          Inr (np_div (\<Sum>i<length y_pred. holiday_weight (holidays ! i) * \<bar>y_true ! i - y_pred ! i\<bar>)
                      (\<Sum>i<length y_pred. holiday_weight (holidays ! i)))"
    if len: "length y_true = length y_pred" "length holidays = length y_pred"
  proof -
    let ?errs = "map2 (\<lambda>a b. \<bar>a - b\<bar>) y_true y_pred"
    have le: "length ?errs = length y_pred" using len by simp
    have "sum_list (map2 (\<lambda>w a. w * a) (np_where_weights holidays) ?errs) =
          (\<Sum>i<length ?errs. np_where_weights holidays ! i * ?errs ! i)"
      by (rule sum_list_map2_nth) (simp add: len np_where_weights_def)
    also have "\<dots> = (\<Sum>i<length y_pred. holiday_weight (holidays ! i) * \<bar>y_true ! i - y_pred ! i\<bar>)"
      using len by (intro sum.cong) (simp_all add: np_where_weights_def)
    finally have num: "sum_list (map2 (\<lambda>w a. w * a) (np_where_weights holidays) ?errs) =
          (\<Sum>i<length y_pred. holiday_weight (holidays ! i) * \<bar>y_true ! i - y_pred ! i\<bar>)" .
    have den: "sum_list (np_where_weights holidays) =
          (\<Sum>i<length y_pred. holiday_weight (holidays ! i))"
      using len by (simp add: np_where_weights_def sum_list_map_nth)
    show ?thesis
      by (simp only: calculate_wmae_equal_lengths [OF len] num den)
  qed
  have zero: "calculate_wmae y y flags = Inr (Num 0)"
    if len: "length flags = length y" and ne: "y \<noteq> []"
  proof -
    from ne len have "flags \<noteq> []" by auto
    then have pos: "0 < sum_list (np_where_weights flags)" by (rule sum_list_weights_pos)
    have "sum_list (map2 (\<lambda>w a. w * a) (np_where_weights flags) (map2 (\<lambda>a b. \<bar>a - b\<bar>) y y)) =
          sum_list (np_where_weights flags) * 0"
      by (rule weighted_errors_const) (auto simp: len set_zip)
    with pos show ?thesis
      by (simp add: calculate_wmae_equal_lengths [OF refl len] np_div_def)
  qed
  have example: "calculate_wmae [1000, 1000] [1100, 1100] [True, False] = Inr (Num 100)"
    by (simp add: calculate_wmae_def np_binop_def np_where_weights_def holiday_weight_def np_div_def)
  have moved: "calculate_wmae y_true y_pred moved = calculate_wmae y_true y_pred holidays"
    if len: "length y_true = length y_pred" "length holidays = length y_pred"
      and perm: "mset moved = mset holidays"
      and eq: "\<forall>i<length y_pred. \<bar>y_true ! i - y_pred ! i\<bar> = e"
  proof -
    let ?errs = "map2 (\<lambda>a b. \<bar>a - b\<bar>) y_true y_pred"
    from perm have "size (mset moved) = size (mset holidays)" by simp
    then have len': "length moved = length y_pred" using len by simp
    have all: "\<forall>a\<in>set ?errs. a = e"
      using eq len by (auto simp: set_zip)
    have "sum_list (map2 (\<lambda>w a. w * a) (np_where_weights moved) ?errs) =
          sum_list (np_where_weights moved) * e"
      by (rule weighted_errors_const [OF _ all]) (simp add: len len')
    moreover have "sum_list (map2 (\<lambda>w a. w * a) (np_where_weights holidays) ?errs) =
          sum_list (np_where_weights holidays) * e"
      by (rule weighted_errors_const [OF _ all]) (simp add: len)
    ultimately show ?thesis
      by (simp add: calculate_wmae_equal_lengths [OF len(1) len']
          calculate_wmae_equal_lengths [OF len] sum_list_weights_mset [OF perm])
  qed
  show ?thesis
    using formula zero example moved by (simp add: holiday_weight_def)
qed

theorem calculate_wmae_correct_witness:
  "length [1000, 2000, 3000 :: real] = length [1100, 1900, 3200 :: real]
   \<and> length [False, True, False] = length [1100, 1900, 3200 :: real]
   \<and> calculate_wmae [1000, 2000, 3000] [1100, 1900, 3200] [False, True, False] =
       Inr (np_div (\<Sum>i<length [1100, 1900, 3200 :: real].
                      holiday_weight ([False, True, False] ! i) *
                      \<bar>[1000, 2000, 3000] ! i - [1100, 1900, 3200] ! i\<bar>)
                   (\<Sum>i<length [1100, 1900, 3200 :: real]. holiday_weight ([False, True, False] ! i)))
   \<and> [1100, 1900, 3200 :: real] \<noteq> []
   \<and> calculate_wmae [1100, 1900, 3200] [1100, 1900, 3200] [False, True, False] = Inr (Num 0)
   \<and> mset [True, False, False] = mset [False, True, False]
   \<and> map2 (\<lambda>a b. \<bar>a - b\<bar>) [1000, 1000, 1000] [1100, 1100, 1100 :: real] = [100, 100, 100]
   \<and> calculate_wmae [1000, 1000, 1000] [1100, 1100, 1100] [True, False, False] =
       calculate_wmae [1000, 1000, 1000] [1100, 1100, 1100] [False, True, False]"
proof -
  have a: "length [1000, 2000, 3000 :: real] = length [1100, 1900, 3200 :: real]
           \<and> length [False, True, False] = length [1100, 1900, 3200 :: real]"
    by simp
  have b: "length [False, True, False] = length [1100, 1900, 3200 :: real]
           \<and> [1100, 1900, 3200 :: real] \<noteq> []"
    by simp
  have c: "mset [True, False, False] = mset [False, True, False]"
    by simp
  have d: "\<forall>i<length [1100, 1100, 1100 :: real].
             \<bar>[1000, 1000, 1000] ! i - [1100, 1100, 1100 :: real] ! i\<bar> = 100"
    by (simp add: nth_Cons' less_Suc_eq)
  have e: "length [1000, 1000, 1000 :: real] = length [1100, 1100, 1100 :: real]
           \<and> length [False, True, False] = length [1100, 1100, 1100 :: real]"
    by simp
  note w = calculate_wmae_correct [of "[1000, 2000, 3000]" "[1100, 1900, 3200]"
      "[False, True, False]" "[False, True, False]" "[1100, 1900, 3200]"]
  note w' = calculate_wmae_correct [of "[1000, 1000, 1000]" "[1100, 1100, 1100]"
      "[False, True, False]" "[False, True, False]" "[1100, 1100, 1100]"
      "[True, False, False]" 100]
  from w a have "calculate_wmae [1000, 2000, 3000] [1100, 1900, 3200] [False, True, False] =
       Inr (np_div (\<Sum>i<length [1100, 1900, 3200 :: real].
                      holiday_weight ([False, True, False] ! i) *
                      \<bar>[1000, 2000, 3000] ! i - [1100, 1900, 3200] ! i\<bar>)
                   (\<Sum>i<length [1100, 1900, 3200 :: real]. holiday_weight ([False, True, False] ! i)))"
    by blast
  moreover from w b have "calculate_wmae [1100, 1900, 3200] [1100, 1900, 3200] [False, True, False] = Inr (Num 0)"
    by blast
  moreover from w' c d e have "calculate_wmae [1000, 1000, 1000] [1100, 1100, 1100] [True, False, False] =
       calculate_wmae [1000, 1000, 1000] [1100, 1100, 1100] [False, True, False]"
    by blast
  moreover have "map2 (\<lambda>a b. \<bar>a - b\<bar>) [1000, 1000, 1000] [1100, 1100, 1100 :: real] = [100, 100, 100]"
    by simp
  ultimately show ?thesis using a b c by blast
qed

text \<open>
  Claim C8. The claim asks for an explicit error on empty inputs. The source has no such
  guard: the three empty arrays pass the elementwise operations, both sums are 0.0 and
  the division yields NaN, which is returned.
\<close>

theorem calculate_wmae_empty_not_error:
  "\<not> (\<exists>err. calculate_wmae [] [] [] = Inl err)"
  by (simp add: calculate_wmae_def np_binop_def np_where_weights_def np_div_def)

text \<open>
  Claim C8, as the code has it: on three empty arrays \<open>calculate_wmae\<close> does not raise and
  returns NaN, the quotient of the zero error sum by the zero total weight.
\<close>

theorem calculate_wmae_empty_nan:
  "calculate_wmae [] [] [] = Inr NaN"
  by (simp add: calculate_wmae_def np_binop_def np_where_weights_def np_div_def)

section \<open>Properties of the temporal split\<close>


lemma split_parts:
  assumes "df \<noteq> []"
  shows "fst (create_train_val_split fd df v) =
     (filter (\<lambda>r. fd r < Max (fd ` set df) - 7 * v) (sort_key fd df),
      filter (\<lambda>r. Max (fd ` set df) - 7 * v \<le> fd r) (sort_key fd df))"
  using assms
  by (simp add: create_train_val_split_def Let_def series_max_def date_lt_def date_ge_def timedelta_weeks_def)


lemma filter_cut_length:
  "length (filter (\<lambda>r. f r < (c::int)) xs) + length (filter (\<lambda>r. c \<le> f r) xs) = length xs"
  by (induction xs) auto

lemma filter_cut_mset:
  "mset (filter (\<lambda>r. f r < (c::int)) xs) + mset (filter (\<lambda>r. c \<le> f r) xs) = mset xs"
  by (induction xs) auto

lemma filter_cut_separated:
  assumes "filter (\<lambda>r. f r < (c::int)) xs \<noteq> []" and "filter (\<lambda>r. c \<le> f r) xs \<noteq> []"
  shows "Max (f ` set (filter (\<lambda>r. f r < c) xs)) < Min (f ` set (filter (\<lambda>r. c \<le> f r) xs))"
proof -
  let ?A = "f ` set (filter (\<lambda>r. f r < c) xs)" and ?B = "f ` set (filter (\<lambda>r. c \<le> f r) xs)"
  have fin: "finite ?A" "finite ?B" by simp_all
  have ne: "?A \<noteq> {}" "?B \<noteq> {}" using assms by (auto simp: filter_empty_conv)
  have "Max ?A \<in> ?A" using fin(1) ne(1) by (rule Max_in)
  then have a: "Max ?A < c" by auto
  have "Min ?B \<in> ?B" using fin(2) ne(2) by (rule Min_in)
  then have b: "c \<le> Min ?B" by auto
  from a b show ?thesis by linarith
qed

text \<open>
  Claim C2. For a non-empty frame and any number of validation weeks (in particular any
  \<open>val_weeks \<ge> 1\<close>), the cut-off is the largest \<open>feature_date\<close> minus \<open>val_weeks\<close> weeks,
  train holds the rows strictly before it and val the rows on or after it; when both are
  non-empty the largest train date is before the smallest val date; and the two parts
  together have as many rows as the input (indeed the same rows).
\<close>

theorem split_non_overlap:
  "df \<noteq> [] \<longrightarrow>
     (let cutoff = Max (fdate ` set df) - 7 * val_weeks;
          train = fst (fst (create_train_val_split fdate df val_weeks));
          val = snd (fst (create_train_val_split fdate df val_weeks))
      in train = filter (\<lambda>r. fdate r < cutoff) (sort_key fdate df)
       \<and> val = filter (\<lambda>r. cutoff \<le> fdate r) (sort_key fdate df)
       \<and> (train \<noteq> [] \<and> val \<noteq> [] \<longrightarrow>
            Max (fdate ` set train) < Min (fdate ` set val))
       \<and> length train + length val = length df
       \<and> mset train + mset val = mset df)"
proof
  assume ne: "df \<noteq> []"
  show "let cutoff = Max (fdate ` set df) - 7 * val_weeks;
          train = fst (fst (create_train_val_split fdate df val_weeks));
          val = snd (fst (create_train_val_split fdate df val_weeks))
      in train = filter (\<lambda>r. fdate r < cutoff) (sort_key fdate df)
       \<and> val = filter (\<lambda>r. cutoff \<le> fdate r) (sort_key fdate df)
       \<and> (train \<noteq> [] \<and> val \<noteq> [] \<longrightarrow>
            Max (fdate ` set train) < Min (fdate ` set val))
       \<and> length train + length val = length df
       \<and> mset train + mset val = mset df"
    unfolding Let_def split_parts [OF ne] fst_conv snd_conv
    using filter_cut_separated [of fdate _ "sort_key fdate df"]
      filter_cut_length [of fdate _ "sort_key fdate df"]
      filter_cut_mset [of fdate _ "sort_key fdate df"]
    by simp
qed

theorem split_non_overlap_witness:
  "[10, 3, 70, 64 :: int] \<noteq> []
   \<and> fst (create_train_val_split id [10, 3, 70, 64] 1) = ([3, 10], [64, 70])
   \<and> [3, 10 :: int] \<noteq> [] \<and> [64, 70 :: int] \<noteq> []
   \<and> Max (id ` set [3, 10 :: int]) < Min (id ` set [64, 70 :: int])
   \<and> length [3, 10 :: int] + length [64, 70 :: int] = length [10, 3, 70, 64 :: int]"
proof -
  have ne: "[10, 3, 70, 64 :: int] \<noteq> []" by simp
  have ev: "fst (create_train_val_split id [10, 3, 70, 64] 1) = ([3, 10], [64, 70 :: int])"
    by (simp add: create_train_val_split_def Let_def series_max_def date_lt_def date_ge_def
        timedelta_weeks_def)
  from split_non_overlap [of "[10, 3, 70, 64]" id 1] ne ev
  have "Max (id ` set [3, 10 :: int]) < Min (id ` set [64, 70 :: int])"
    by (simp add: Let_def)
  with ne ev show ?thesis by simp
qed




section \<open>Properties of the lag features\<close>

lemma length_groupby_transform [simp]: "length (groupby_transform grp f df) = length df"
  by (simp add: groupby_transform_def)

lemma length_assign: "length col = length df \<Longrightarrow> length (assign df name col) = length df"
  by (simp add: assign_def)

lemma map_fst_assign: "length col = length df \<Longrightarrow> map fst (assign df name col) = map fst df"
  by (induction df col rule: list_induct2') (auto simp: assign_def)

lemma nth_assign:
  "length col = length df \<Longrightarrow> p < length df \<Longrightarrow>
   snd (assign df name col ! p) = (snd (df ! p))(name \<mapsto> col ! p)"
  by (simp add: assign_def case_prod_beta)

lemma filter_fst: "map fst (filter (\<lambda>(r, c). P r) df) = filter P (map fst df)"
  by (induction df) auto

lemma groupby_transform_fst:
  "groupby_transform (\<lambda>(r, c). grp r) (\<lambda>g. f (map (\<lambda>(r, c). t r) g)) df =
   groupby_transform grp (\<lambda>g. f (map t g)) (map fst df)"
proof -
  have a: "map (\<lambda>(r, c). t r) (filter (\<lambda>r. grp (fst r) = k) xs) =
           map t (filter (\<lambda>r. grp r = k) (map fst xs))" for k xs
    by (induction xs) auto
  show ?thesis
    unfolding groupby_transform_def
    by (rule nth_equalityI) (simp_all add: a case_prod_beta take_map filter_map comp_def)
qed

lemma filter_nth_position:
  "i < length (filter P xs) \<Longrightarrow>
   \<exists>p<length xs. filter P xs ! i = xs ! p \<and> P (xs ! p) \<and> length (filter P (take p xs)) = i"
proof (induction xs arbitrary: i)
  case Nil
  then show ?case by simp
next
  case (Cons x xs)
  show ?case
  proof (cases "P x")
    case True
    show ?thesis
    proof (cases i)
      case 0
      with True show ?thesis by (intro exI [of _ 0]) simp
    next
      case (Suc j)
      with Cons.prems True have "j < length (filter P xs)" by simp
      from Cons.IH [OF this] obtain p where
        "p < length xs" "filter P xs ! j = xs ! p" "P (xs ! p)" "length (filter P (take p xs)) = j"
        by blast
      with True Suc show ?thesis by (intro exI [of _ "Suc p"]) simp
    qed
  next
    case False
    with Cons.prems have "i < length (filter P xs)" by simp
    from Cons.IH [OF this] obtain p where
      "p < length xs" "filter P xs ! i = xs ! p" "P (xs ! p)" "length (filter P (take p xs)) = i"
      by blast
    with False show ?thesis by (intro exI [of _ "Suc p"]) simp
  qed
qed

lemma nth_shift:
  "i < length xs \<Longrightarrow>
   shift k xs ! i = (if 0 \<le> int i - k \<and> int i - k < int (length xs) then Some (xs ! nat (int i - k)) else None)"
  by (simp add: shift_def Let_def)

lemma length_shift [simp]: "length (shift k xs) = length xs"
  by (simp add: shift_def)

lemma length_lag_column [simp]: "length (lag_column sid did target lag df) = length df"
  by (simp add: lag_column_def)

lemma lag_column_fst:
  "lag_column sid did target lag df =
   map opt_cell (groupby_transform (\<lambda>r. (sid r, did r)) (\<lambda>g. shift lag (map target g)) (map fst df))"
  unfolding lag_column_def
  by (rule arg_cong [where f = "map opt_cell"])
     (rule groupby_transform_fst [of "\<lambda>r. (sid r, did r)" "shift lag" target df])

lemma lag_fold_fst:
  "map fst (fold (\<lambda>lag df. assign df (sales_lag lag) (lag_column sid did target lag df)) lags df0) =
   map fst df0"
proof (induction lags arbitrary: df0)
  case Nil
  show ?case by simp
next
  case (Cons a lags)
  let ?F = "\<lambda>lag df. assign df (sales_lag lag) (lag_column sid did target lag df)"
  have "map fst (fold ?F (a # lags) df0) = map fst (fold ?F lags (?F a df0))"
    by (simp only: fold_simps)
  also have "\<dots> = map fst (?F a df0)"
    by (rule Cons.IH)
  also have "\<dots> = map fst df0"
    by (rule map_fst_assign) (rule length_lag_column)
  finally show ?case .
qed

lemma lag_fold_length:
  "length (fold (\<lambda>lag df. assign df (sales_lag lag) (lag_column sid did target lag df)) lags df0) =
   length df0"
  by (rule map_eq_imp_length_eq [OF lag_fold_fst])


lemma lag_fold_col:
  "p < length df0 \<Longrightarrow>
   snd (fold (\<lambda>lag df. assign df (sales_lag lag) (lag_column sid did target lag df)) lags df0 ! p)
     (sales_lag k) =
   (if k \<in> set lags
    then Some (opt_cell (groupby_transform (\<lambda>r. (sid r, did r)) (\<lambda>g. shift k (map target g))
                           (map fst df0) ! p))
    else snd (df0 ! p) (sales_lag k))"
proof (induction lags arbitrary: df0)
  case Nil
  show ?case by simp
next
  case (Cons a lags)
  let ?F = "\<lambda>lag df. assign df (sales_lag lag) (lag_column sid did target lag df)"
  let ?G = "\<lambda>k. groupby_transform (\<lambda>r. (sid r, did r)) (\<lambda>g. shift k (map target g)) (map fst df0)"
  let ?d = "?F a df0"
  have len: "length ?d = length df0"
    by (rule length_assign) (rule length_lag_column)
  have fst: "map fst ?d = map fst df0"
    by (rule map_fst_assign) (rule length_lag_column)
  have "snd (?d ! p) = (snd (df0 ! p))(sales_lag a \<mapsto> lag_column sid did target a df0 ! p)"
    by (rule nth_assign) (simp_all add: Cons.prems)
  moreover have "lag_column sid did target a df0 ! p = opt_cell (?G a ! p)"
    using Cons.prems by (simp only: lag_column_fst) simp
  ultimately have col: "snd (?d ! p) (sales_lag k) =
     (if k = a then Some (opt_cell (?G a ! p)) else snd (df0 ! p) (sales_lag k))"
    by simp
  have step: "fold ?F (a # lags) df0 = fold ?F lags ?d"
    by (simp only: fold_simps)
  have "p < length ?d" using Cons.prems len by simp
  from Cons.IH [OF this]
  have "snd (fold ?F lags ?d ! p) (sales_lag k) =
     (if k \<in> set lags then Some (opt_cell (?G k ! p)) else snd (?d ! p) (sales_lag k))"
    by (simp only: fst)
  then show ?case
    unfolding step using col by (cases "k = a") simp_all
qed

lemma sorted_group_dates:
  fixes a b :: "'r \<Rightarrow> int" and d :: "'r \<Rightarrow> int"
  assumes "sorted (map (\<lambda>r. (a r, b r, d r)) xs)"
  shows "sorted (map d (filter (\<lambda>r. (a r, b r) = g) xs))"
  using assms
proof (induction xs)
  case Nil
  show ?case by simp
next
  case (Cons x xs)
  then have tl: "sorted (map d (filter (\<lambda>r. (a r, b r) = g) xs))" by simp
  show ?case
  proof (cases "(a x, b x) = g")
    case False
    with tl show ?thesis by simp
  next
    case True
    have "d x \<le> d y" if "y \<in> set xs" "(a y, b y) = g" for y
    proof -
      from Cons.prems that(1) have "(a x, b x, d x) \<le> (a y, b y, d y)" by auto
      moreover from True that(2) have "a y = a x" "b y = b x" by auto
      ultimately show ?thesis by (simp add: less_eq_prod_def)
    qed
    with True tl show ?thesis by auto
  qed
qed

lemma sort_key_permutation:
  fixes f :: "'a \<Rightarrow> 'k::linorder"
  assumes "mset xs' = mset xs" and "inj_on f (set xs)"
  shows "sort_key f xs' = sort_key f xs"
proof (rule sort_key_inj_key_eq)
  show "mset xs' = mset (sort_key f xs)" using assms(1) by simp
  have "set xs' = set xs" using assms(1) by (rule mset_eq_setD)
  with assms(2) show "inj_on f (set xs')" by simp
  show "sorted (map f (sort_key f xs))" by (rule sorted_sort_key)
qed

lemma group_position:
  fixes sid did :: "'r \<Rightarrow> int"
  assumes i: "i < length (filter (\<lambda>(r, c). (sid r, did r) = g) out)"
  shows "\<exists>p<length out.
           filter (\<lambda>(r, c). (sid r, did r) = g) out ! i = out ! p
         \<and> (sid (map fst out ! p), did (map fst out ! p)) = g
         \<and> length (filter (\<lambda>r. (sid r, did r) = g) (take p (map fst out))) = i"
proof -
  let ?P = "\<lambda>(r, c). (sid r, did r) = g"
  let ?Q = "\<lambda>r. (sid r, did r) = g"
  from filter_nth_position [OF i] obtain p where
    pp: "p < length out \<and> filter ?P out ! i = out ! p \<and>
         ?P (out ! p) \<and> length (filter ?P (take p out)) = i" ..
  then have p: "p < length out" and nth: "filter ?P out ! i = out ! p" and
    grp: "?P (out ! p)" and pos: "length (filter ?P (take p out)) = i"
    by (rule conjunct1, rule conjunct2 [THEN conjunct1],
        rule conjunct2 [THEN conjunct2, THEN conjunct1],
        rule conjunct2 [THEN conjunct2, THEN conjunct2])
  have g: "(sid (map fst out ! p), did (map fst out ! p)) = g"
    using grp p by (simp add: case_prod_beta)
  have "filter ?Q (take p (map fst out)) = map fst (filter ?P (take p out))"
    by (simp only: take_map filter_fst)
  then have "length (filter ?Q (take p (map fst out))) = length (filter ?P (take p out))"
    by (simp only: length_map)
  from this pos have before: "length (filter ?Q (take p (map fst out))) = i"
    by (rule trans)
  show ?thesis
    by (rule exI [of _ p]) (intro conjI p nth g before)
qed


lemma lag_value_in_group:
  fixes sid did :: "'r \<Rightarrow> int" and target :: "'r \<Rightarrow> real"
  defines "F \<equiv> \<lambda>lag df. assign df (sales_lag lag) (lag_column sid did target lag df)"
  assumes i: "i < length (filter (\<lambda>(r, c). (sid r, did r) = g) (fold F lags df1))"
    and k: "k \<in> set lags"
  shows "snd (filter (\<lambda>(r, c). (sid r, did r) = g) (fold F lags df1) ! i) (sales_lag k) =
         Some (opt_cell (shift k (map target (map fst
           (filter (\<lambda>(r, c). (sid r, did r) = g) (fold F lags df1)))) ! i))"
proof -
  let ?out = "fold F lags df1"
  let ?P = "\<lambda>(r, c). (sid r, did r) = g"
  let ?Q = "\<lambda>r. (sid r, did r) = g"
  have fst_out: "map fst ?out = map fst df1"
    unfolding F_def by (rule lag_fold_fst)
  have len_out: "length ?out = length df1"
    unfolding F_def by (rule lag_fold_length)
  from group_position [OF i] obtain p where
    pp: "p < length ?out \<and> filter ?P ?out ! i = ?out ! p \<and>
         (sid (map fst ?out ! p), did (map fst ?out ! p)) = g \<and>
         length (filter ?Q (take p (map fst ?out))) = i"
    by (elim exE) (rule that)
  then have p: "p < length ?out" and nth: "filter ?P ?out ! i = ?out ! p" and
    g: "(sid (map fst ?out ! p), did (map fst ?out ! p)) = g" and
    before: "length (filter ?Q (take p (map fst ?out))) = i"
    by (rule conjunct1, rule conjunct2 [THEN conjunct1],
        rule conjunct2 [THEN conjunct2, THEN conjunct1],
        rule conjunct2 [THEN conjunct2, THEN conjunct2])
  have p1: "p < length df1" using p by (simp only: len_out)
  have members: "filter ?Q (map fst ?out) = map fst (filter ?P ?out)"
    by (simp only: filter_fst)
  have "snd (?out ! p) (sales_lag k) =
        Some (opt_cell (groupby_transform (\<lambda>r. (sid r, did r)) (\<lambda>g. shift k (map target g))
                           (map fst df1) ! p))"
    unfolding F_def using lag_fold_col [OF p1, of sid did target lags k] k by (simp only: if_True)
  also have "groupby_transform (\<lambda>r. (sid r, did r)) (\<lambda>g. shift k (map target g)) (map fst df1) ! p =
        shift k (map target (filter (\<lambda>r. (sid r, did r) = (sid (map fst df1 ! p), did (map fst df1 ! p)))
                   (map fst df1)))
          ! length (filter (\<lambda>r. (sid r, did r) = (sid (map fst df1 ! p), did (map fst df1 ! p)))
                      (take p (map fst df1)))"
    unfolding groupby_transform_def using p1 by (subst nth_map) simp_all
  also have "\<dots> = shift k (map target (map fst (filter ?P ?out))) ! i"
    using g before members by (simp only: fst_out)
  finally show ?thesis
    by (simp only: nth)
qed

lemma create_lag_features_unfold:
  "create_lag_features sid did dt target lags df =
   fold (\<lambda>lag df. assign df (sales_lag lag) (lag_column sid did target lag df)) lags
     (sort_key (\<lambda>(r, c). (sid r, did r, dt r)) df)"
  by (simp only: create_lag_features_def Let_def)

lemma create_lag_features_rows:
  "map fst (create_lag_features sid did dt target lags df) =
   map fst (sort_key (\<lambda>(r, c). (sid r, did r, dt r)) df)"
  by (simp only: create_lag_features_unfold lag_fold_fst)

lemma create_lag_features_sorted:
  "sorted (map (\<lambda>r. (sid r, did r, dt r)) (map fst (create_lag_features sid did dt target lags df)))"
proof -
  have "map (\<lambda>r. (sid r, did r, dt r)) (map fst xs) = map (\<lambda>(r, c). (sid r, did r, dt r)) xs"
    for xs :: "('a \<times> columns) list"
    by (induction xs) auto
  then show ?thesis
    by (simp only: create_lag_features_rows sorted_sort_key)
qed

text \<open>
  Claim C1. Let \<open>out\<close> be the frame \<open>create_lag_features\<close> returns and \<open>part\<close> its rows of
  one (store\_id, dept\_id) group, in frame order. The output holds the input's rows,
  \<open>part\<close> holds exactly the group's rows, ordered ascending by date, and for every
  requested lag \<open>k \<ge> 1\<close> the column \<open>sales_lag k\<close> of the \<open>i\<close>-th row of \<open>part\<close> is the target
  of the row \<open>k\<close> places earlier in \<open>part\<close>, and missing when \<open>i < k\<close>. Because the builder
  sorts by (store\_id, dept\_id, date) itself, any reordering of the input rows gives the
  same output, provided no two different rows share (store\_id, dept\_id, date): the key
  is unique in the sales table, as the schema and tests/test\_validation.py require.
\<close>

theorem lag_features_no_leakage:
  fixes sid did :: "'r \<Rightarrow> int" and dt :: "'r \<Rightarrow> date" and target :: "'r \<Rightarrow> real"
    and lags :: "int list" and df :: "'r frame" and g :: "int \<times> int"
  defines "out \<equiv> create_lag_features sid did dt target lags df"
  defines "part \<equiv> filter (\<lambda>(r, c). (sid r, did r) = g) out"
  shows "mset (map fst out) = mset (map fst df)
    \<and> mset (map fst part) = mset (filter (\<lambda>r. (sid r, did r) = g) (map fst df))
    \<and> sorted (map (\<lambda>(r, c). dt r) part)
    \<and> (\<forall>i k. i < length part \<and> k \<in> set lags \<and> 1 \<le> k \<longrightarrow>
          snd (part ! i) (sales_lag k) =
            Some (if k \<le> int i then Fl (Num (target (fst (part ! (i - nat k))))) else Fl NaN))
    \<and> (\<forall>df'. mset df' = mset df \<and> inj_on (\<lambda>(r, c). (sid r, did r, dt r)) (set df) \<longrightarrow>
          create_lag_features sid did dt target lags df' = out)"
proof -
  let ?key = "\<lambda>(r, c). (sid r, did r, dt r)"
  let ?F = "\<lambda>lag df. assign df (sales_lag lag) (lag_column sid did target lag df)"
  let ?Q = "\<lambda>r. (sid r, did r) = g"
  have out: "out = fold ?F lags (sort_key ?key df)"
    unfolding out_def by (rule create_lag_features_unfold)
  have rows: "map fst out = map fst (sort_key ?key df)"
    unfolding out_def by (rule create_lag_features_rows)
  have "mset (map fst (sort_key ?key df)) = mset (map fst df)"
    by simp
  then have a: "mset (map fst out) = mset (map fst df)"
    by (simp only: rows)
  have fpart: "map fst part = filter ?Q (map fst out)"
    unfolding part_def by (rule filter_fst)
  have "mset (filter ?Q (map fst out)) = filter_mset ?Q (mset (map fst out))"
    by (rule mset_filter)
  also have "\<dots> = filter_mset ?Q (mset (map fst df))"
    by (simp only: a)
  also have "\<dots> = mset (filter ?Q (map fst df))"
    by (rule mset_filter [symmetric])
  finally have b: "mset (map fst part) = mset (filter ?Q (map fst df))"
    by (simp only: fpart)
  have "sorted (map (\<lambda>r. (sid r, did r, dt r)) (map fst out))"
    unfolding out_def by (rule create_lag_features_sorted)
  then have "sorted (map dt (filter ?Q (map fst out)))"
    by (rule sorted_group_dates)
  then have "sorted (map dt (map fst part))"
    by (simp only: fpart)
  moreover have "map dt (map fst part) = map (\<lambda>(r, c). dt r) part"
    by (induction part) auto
  ultimately have c: "sorted (map (\<lambda>(r, c). dt r) part)"
    by (rule subst [where P = sorted, rotated])
  have d: "snd (part ! i) (sales_lag k) =
            Some (if k \<le> int i then Fl (Num (target (fst (part ! (i - nat k))))) else Fl NaN)"
    if i: "i < length part" and k: "k \<in> set lags" and k1: "1 \<le> k" for i k
  proof -
    have i': "i < length (filter (\<lambda>(r, c). (sid r, did r) = g) (fold ?F lags (sort_key ?key df)))"
      using i unfolding part_def out .
    have "snd (part ! i) (sales_lag k) =
          Some (opt_cell (shift k (map target (map fst part)) ! i))"
      unfolding part_def out by (rule lag_value_in_group [OF i' k])
    moreover have "shift k (map target (map fst part)) ! i =
          (if k \<le> int i then Some (target (fst (part ! (i - nat k)))) else None)"
    proof (cases "k \<le> int i")
      case True
      with k1 i have j: "i - nat k < length part" "nat (int i - k) = i - nat k"
        "0 \<le> int i - k" "int i - k < int (length part)"
        by auto
      from i have "shift k (map target (map fst part)) ! i =
          Some (map target (map fst part) ! nat (int i - k))"
        using j(3,4) by (simp add: nth_shift)
      with j(1,2) True show ?thesis by simp
    next
      case False
      with i show ?thesis by (simp add: nth_shift)
    qed
    ultimately show ?thesis by (simp add: opt_cell_def)
  qed
  have e: "create_lag_features sid did dt target lags df' = out"
    if "mset df' = mset df" and "inj_on ?key (set df)" for df'
  proof -
    from that have "sort_key ?key df' = sort_key ?key df"
      by (rule sort_key_permutation)
    then show ?thesis
      by (simp only: out create_lag_features_unfold)
  qed
  have d': "\<forall>i k. i < length part \<and> k \<in> set lags \<and> 1 \<le> k \<longrightarrow>
          snd (part ! i) (sales_lag k) =
            Some (if k \<le> int i then Fl (Num (target (fst (part ! (i - nat k))))) else Fl NaN)"
    by (intro allI impI) (elim conjE, rule d, assumption+)
  have e': "\<forall>df'. mset df' = mset df \<and> inj_on ?key (set df) \<longrightarrow>
          create_lag_features sid did dt target lags df' = out"
    by (intro allI impI) (elim conjE, rule e, assumption+)
  show ?thesis
    by (intro conjI a b c d' e')
qed

theorem lag_features_no_leakage_witness:
  "mset [((1, 1, 7, 200), Map.empty), ((2, 1, 0, 7), Map.empty), ((1, 1, 0, 100), Map.empty)]
     = mset [((1 :: int, 1 :: int, 0 :: int, 100 :: real), Map.empty :: columns),
             ((1, 1, 7, 200), Map.empty), ((2, 1, 0, 7), Map.empty)]
   \<and> inj_on (\<lambda>(r, c). (fst r, fst (snd r), fst (snd (snd r))))
        (set [((1 :: int, 1 :: int, 0 :: int, 100 :: real), Map.empty :: columns),
              ((1, 1, 7, 200), Map.empty), ((2, 1, 0, 7), Map.empty)])
   \<and> create_lag_features fst (\<lambda>r. fst (snd r)) (\<lambda>r. fst (snd (snd r))) (\<lambda>r. snd (snd (snd r))) [1, 2]
        [((1, 1, 7, 200), Map.empty), ((2, 1, 0, 7), Map.empty), ((1, 1, 0, 100), Map.empty)]
     = create_lag_features fst (\<lambda>r. fst (snd r)) (\<lambda>r. fst (snd (snd r))) (\<lambda>r. snd (snd (snd r))) [1, 2]
        [((1, 1, 0, 100), Map.empty), ((1, 1, 7, 200), Map.empty), ((2, 1, 0, 7), Map.empty)]
   \<and> 1 < length (filter (\<lambda>(r, c). (fst r, fst (snd r)) = (1, 1))
        (create_lag_features fst (\<lambda>r. fst (snd r)) (\<lambda>r. fst (snd (snd r))) (\<lambda>r. snd (snd (snd r))) [1, 2]
          [((1, 1, 0, 100), Map.empty), ((1, 1, 7, 200), Map.empty), ((2, 1, 0, 7), Map.empty)]))
   \<and> (1 :: int) \<in> set [1, 2]
   \<and> snd (filter (\<lambda>(r, c). (fst r, fst (snd r)) = (1, 1))
        (create_lag_features fst (\<lambda>r. fst (snd r)) (\<lambda>r. fst (snd (snd r))) (\<lambda>r. snd (snd (snd r))) [1, 2]
          [((1, 1, 0, 100), Map.empty), ((1, 1, 7, 200), Map.empty), ((2, 1, 0, 7), Map.empty)]) ! 1)
        (sales_lag 1) = Some (Fl (Num 100))"
proof -
  let ?df = "[((1 :: int, 1 :: int, 0 :: int, 100 :: real), Map.empty :: columns),
              ((1, 1, 7, 200), Map.empty), ((2, 1, 0, 7), Map.empty)]"
  let ?df' = "[((1 :: int, 1 :: int, 7 :: int, 200 :: real), Map.empty :: columns),
              ((2, 1, 0, 7), Map.empty), ((1, 1, 0, 100), Map.empty)]"
  let ?out = "create_lag_features fst (\<lambda>r. fst (snd r)) (\<lambda>r. fst (snd (snd r)))
                (\<lambda>r. snd (snd (snd r))) [1, 2] ?df"
  let ?part = "filter (\<lambda>(r, c). (fst r, fst (snd r)) = (1, 1)) ?out"
  note main = lag_features_no_leakage [where sid = fst and did = "\<lambda>r. fst (snd r)"
      and g = "(1, 1)" and dt = "\<lambda>r. fst (snd (snd r))" and target = "\<lambda>r. snd (snd (snd r))"
      and lags = "[1, 2]" and df = ?df]
  note lagged = main [THEN conjunct2, THEN conjunct2, THEN conjunct2, THEN conjunct1,
      THEN spec [where x = 1], THEN spec [where x = 1], THEN mp]
  note shuffled = main [THEN conjunct2, THEN conjunct2, THEN conjunct2, THEN conjunct2,
      THEN spec [where x = ?df'], THEN mp]
  have perm: "mset ?df' = mset ?df" by simp
  have inj: "inj_on (\<lambda>(r, c). (fst r, fst (snd r), fst (snd (snd r)))) (set ?df)" by simp
  have len: "1 < length ?part" by code_simp
  have mem: "(1 :: int) \<in> set [1, 2]" by simp
  have one: "(1 :: int) \<le> 1" by simp
  have prev: "snd (snd (snd (fst (?part ! (1 - nat 1))))) = 100" by code_simp
  have cond: "((1 :: int) \<le> int 1) = True" by simp
  have eq: "create_lag_features fst (\<lambda>r. fst (snd r)) (\<lambda>r. fst (snd (snd r)))
                (\<lambda>r. snd (snd (snd r))) [1, 2] ?df' = ?out"
    by (rule shuffled) (intro conjI perm inj)
  have "snd (?part ! 1) (sales_lag 1) =
     Some (if (1 :: int) \<le> int 1 then Fl (Num (snd (snd (snd (fst (?part ! (1 - nat 1))))))) else Fl NaN)"
    by (rule lagged) (intro conjI len mem one)
  then have val: "snd (?part ! 1) (sales_lag 1) = Some (Fl (Num 100))"
    by (simp only: prev cond if_True)
  show ?thesis
    by (intro conjI perm inj eq len mem val)
qed

section \<open>Properties of the feature pipeline\<close>

lemma matches_at_most_one:
  "distinct (map rkey right) \<Longrightarrow> length (filter (\<lambda>s. rkey s = k) right) \<le> Suc 0"
proof (induction right)
  case Nil
  show ?case by simp
next
  case (Cons a right)
  show ?case
  proof (cases "rkey a = k")
    case True
    with Cons.prems have "k \<notin> rkey ` set right" by auto
    then have "filter (\<lambda>s. rkey s = k) right = []"
      by (auto simp: filter_empty_conv)
    with True show ?thesis by simp
  next
    case False
    with Cons show ?thesis by simp
  qed
qed

lemma merge_one_row:
  assumes "distinct (map rkey right)"
  shows "length (case filter (\<lambda>s. rkey s = k) right of
                   [] \<Rightarrow> [(l, None)]
                 | ms \<Rightarrow> map (\<lambda>s. (l, Some s)) ms) = Suc 0"
proof (cases "filter (\<lambda>s. rkey s = k) right")
  case Nil
  then show ?thesis by simp
next
  case (Cons a ms)
  from matches_at_most_one [OF assms, of k] Cons have "ms = []" by simp
  with Cons show ?thesis by simp
qed


lemma length_left_merge:
  assumes "distinct (map rkey right)"
  shows "length (left_merge lkey rkey left right) = length left"
proof (induction left)
  case Nil
  show ?case by (simp add: left_merge_def)
next
  case (Cons l left)
  have "left_merge lkey rkey (l # left) right =
        (case filter (\<lambda>s. rkey s = lkey l) right of
           [] \<Rightarrow> [(l, None)]
         | ms \<Rightarrow> map (\<lambda>s. (l, Some s)) ms) @ left_merge lkey rkey left right"
    by (simp only: left_merge_def list.map concat.simps)
  then have "length (left_merge lkey rkey (l # left) right) =
        Suc 0 + length (left_merge lkey rkey left right)"
    by (simp only: length_append merge_one_row [OF assms])
  with Cons.IH show ?case by simp
qed

lemma length_assign_map [simp]:
  "length (assign df name (map f df)) = length df"
  by (rule length_assign) simp

lemma length_create_temporal_features:
  "length (create_temporal_features dt df) = length df"
  by (simp add: create_temporal_features_def Let_def)

lemma length_create_lag_features:
  "length (create_lag_features sid did dt target lags df) = length df"
  by (simp only: create_lag_features_unfold lag_fold_length length_sort)

lemma length_rolling_column [simp]:
  "length (rolling_column sid did target w stat df) = length df"
  by (simp add: rolling_column_def)

lemma length_assign_rolling [simp]:
  "length (assign df name (rolling_column sid did target w stat df)) = length df"
  by (rule length_assign) simp


lemma length_create_rolling_features:
  "length (create_rolling_features np_sqrt sid did dt target windows df) = length df"
proof -
  let ?step = "\<lambda>w df.
     (let df = assign df (rolling_mean w) (rolling_column sid did target w mean df);
          df = assign df (rolling_std w) (rolling_column sid did target w (std np_sqrt) df)
      in if w = 4
         then (let df = assign df (rolling_min w) (rolling_column sid did target w minimum df);
                   df = assign df (rolling_max w) (rolling_column sid did target w maximum df)
               in df)
         else df)"
  have step: "length (?step w d) = length d" for w and d :: "'a frame"
    by (simp add: Let_def)
  have "length (fold ?step ws d) = length d" for ws and d :: "'a frame"
  proof (induction ws arbitrary: d)
    case Nil
    show ?case by simp
  next
    case (Cons w ws)
    have "length (fold ?step (w # ws) d) = length (fold ?step ws (?step w d))"
      by (simp only: fold_simps)
    also have "\<dots> = length (?step w d)" by (rule Cons.IH)
    also have "\<dots> = length d" by (rule step)
    finally show ?case .
  qed
  then show ?thesis
    by (simp only: create_rolling_features_def Let_def length_sort)
qed

lemma length_create_economic_features:
  "length (create_economic_features sid dt temp fuel cp unemp df) = length df"
  by (simp add: create_economic_features_def Let_def length_assign)

lemma length_create_markdown_features:
  "length (create_markdown_features mds df) = length df"
proof -
  let ?step = "\<lambda>k df. assign df (markdown (Suc k))
                 (map (\<lambda>(r, c). Fl (Num (map fillna0 (mds r) ! k))) df)"
  have "length (fold ?step ks d) = length d" for ks and d :: "'a frame"
  proof (induction ks arbitrary: d)
    case Nil
    show ?case by simp
  next
    case (Cons k ks)
    have "length (fold ?step (k # ks) d) = length (fold ?step ks (?step k d))"
      by (simp only: fold_simps)
    also have "\<dots> = length (?step k d)" by (rule Cons.IH)
    also have "\<dots> = length d" by (rule length_assign_map)
    finally show ?case .
  qed
  then show ?thesis
    by (simp only: create_markdown_features_def Let_def length_assign_map)
qed

lemma length_create_store_features:
  assumes "distinct (map st_store_id stores_df)"
  shows "length (create_store_features np_sqrt sid df stores_df) = length df"
proof -
  have "length (left_merge (\<lambda>(r, c). sid r) st_store_id df stores_df) = length df"
    using assms by (rule length_left_merge)
  then show ?thesis
    by (simp add: create_store_features_def Let_def length_assign)
qed

text \<open>
  Claim C4. When no two indicator rows share (store\_id, date) and no two store rows share
  store\_id, \<open>engineer_features\<close> returns exactly as many rows as the sales table has,
  whatever indicator and store rows are present or missing: each left merge keeps every
  left row once, and no builder adds or removes a row.
\<close>

theorem engineer_features_row_count:
  "distinct (map (\<lambda>f. (feat_store_id f, feat_date f)) features_df)
   \<and> distinct (map st_store_id stores_df) \<longrightarrow>
   length (engineer_features np_sqrt sales_df features_df stores_df) = length sales_df"
proof
  assume keys: "distinct (map (\<lambda>f. (feat_store_id f, feat_date f)) features_df)
   \<and> distinct (map st_store_id stores_df)"
  then have k1: "distinct (map (\<lambda>f. (feat_store_id f, feat_date f)) features_df)"
    and k2: "distinct (map st_store_id stores_df)"
    by (rule conjunct1, rule conjunct2)
  have merged: "length (left_merge (\<lambda>s. (store_id s, date s)) (\<lambda>f. (feat_store_id f, feat_date f))
                  sales_df features_df) = length sales_df"
    using k1 by (rule length_left_merge)
  show "length (engineer_features np_sqrt sales_df features_df stores_df) = length sales_df"
    unfolding engineer_features_def Let_def
    by (simp only: length_create_store_features [OF k2] length_create_markdown_features
        length_create_economic_features length_create_rolling_features
        length_create_lag_features length_create_temporal_features length_map merged)
qed

theorem engineer_features_row_count_witness:
  "distinct (map (\<lambda>f. (feat_store_id f, feat_date f))
      [\<lparr>feat_store_id = 1, feat_date = 738890, temperature = 50, fuel_price = 3,
        markdown1 = None, markdown2 = Some 5, markdown3 = None, markdown4 = None,
        markdown5 = Some 2, cpi = 200, unemployment = 7, is_holiday_feat = True\<rparr>])
   \<and> distinct (map st_store_id [\<lparr>st_store_id = 1, store_type = A, store_size = 1000\<rparr>])
   \<and> length (engineer_features sqrt
        [\<lparr>store_id = 1, dept_id = 1, date = 738890, weekly_sales = 3, is_holiday = False\<rparr>,
         \<lparr>store_id = 2, dept_id = 1, date = 738890, weekly_sales = 5, is_holiday = False\<rparr>,
         \<lparr>store_id = 1, dept_id = 1, date = 738883, weekly_sales = 4, is_holiday = True\<rparr>]
        [\<lparr>feat_store_id = 1, feat_date = 738890, temperature = 50, fuel_price = 3,
          markdown1 = None, markdown2 = Some 5, markdown3 = None, markdown4 = None,
          markdown5 = Some 2, cpi = 200, unemployment = 7, is_holiday_feat = True\<rparr>]
        [\<lparr>st_store_id = 1, store_type = A, store_size = 1000\<rparr>]) = 3"
proof -
  let ?features = "[\<lparr>feat_store_id = 1, feat_date = 738890, temperature = 50, fuel_price = 3,
        markdown1 = None, markdown2 = Some 5, markdown3 = None, markdown4 = None,
        markdown5 = Some 2, cpi = 200, unemployment = 7, is_holiday_feat = True\<rparr>]"
  let ?stores = "[\<lparr>st_store_id = 1, store_type = A, store_size = 1000\<rparr>]"
  let ?sales = "[\<lparr>store_id = 1, dept_id = 1, date = 738890, weekly_sales = 3, is_holiday = False\<rparr>,
         \<lparr>store_id = 2, dept_id = 1, date = 738890, weekly_sales = 5, is_holiday = False\<rparr>,
         \<lparr>store_id = 1, dept_id = 1, date = 738883, weekly_sales = 4, is_holiday = True\<rparr>]"
  have k1: "distinct (map (\<lambda>f. (feat_store_id f, feat_date f)) ?features)" by simp
  have k2: "distinct (map st_store_id ?stores)" by simp
  have "length (engineer_features sqrt ?sales ?features ?stores) = length ?sales"
    by (rule engineer_features_row_count [THEN mp]) (intro conjI k1 k2)
  then have "length (engineer_features sqrt ?sales ?features ?stores) = 3"
    by simp
  with k1 k2 show ?thesis by (intro conjI)
qed

section \<open>Properties of the forecast generation\<close>

lemma sequence_map_Inr:
  assumes "\<forall>x\<in>set xs. \<exists>v. f x = Inr v \<and> P x v"
  shows "\<exists>vs. sequence (map f xs) = Inr vs \<and> list_all2 P xs vs"
  using assms
proof (induction xs)
  case Nil
  show ?case by simp
next
  case (Cons x xs)
  from Cons.prems obtain v where v: "f x = Inr v" "P x v" by auto
  from Cons.prems have "\<forall>x\<in>set xs. \<exists>v. f x = Inr v \<and> P x v" by simp
  from Cons.IH [OF this] obtain vs where vs: "sequence (map f xs) = Inr vs" "list_all2 P xs vs"
    by auto
  have "sequence (map f (x # xs)) = Inr (v # vs)"
    by (simp add: v(1) vs(1))
  moreover have "list_all2 P (x # xs) (v # vs)"
    using v(2) vs(2) by simp
  ultimately show ?case by (intro exI conjI)
qed

lemma list_all2_map_eq:
  "list_all2 (\<lambda>x v. g v = h x) xs vs \<Longrightarrow> map g vs = map h xs"
  by (induction xs vs rule: list_all2_induct) simp_all

lemma list_all2_concat_eq:
  "list_all2 (\<lambda>x v. map g v = h x) xs vss \<Longrightarrow> map g (concat vss) = concat (map h xs)"
  by (induction xs vss rule: list_all2_induct) simp_all

lemma well_formed_rowD:
  assumes "well_formed_row row"
  shows "\<exists>s d t. row ''store_id'' = Some (Number s) \<and> row ''dept_id'' = Some (Number d)
           \<and> row ''feature_date'' = Some (Date t)"
proof (cases "row ''store_id''")
  case None
  with assms show ?thesis by (simp add: well_formed_row_def)
next
  case a: (Some a)
  show ?thesis
  proof (cases "row ''dept_id''")
    case None
    with assms a show ?thesis by (cases a) (simp_all add: well_formed_row_def)
  next
    case b: (Some b)
    show ?thesis
    proof (cases "row ''feature_date''")
      case None
      with assms a b show ?thesis by (cases a; cases b) (simp_all add: well_formed_row_def)
    next
      case c: (Some c)
      with assms a b show ?thesis
        by (cases a; cases b; cases c) (simp_all add: well_formed_row_def)
    qed
  qed
qed

lemma date_column_well_formed:
  assumes "list_all well_formed_row df"
  shows "\<exists>dates. date_column df ''feature_date'' = Inr dates
           \<and> list_all2 (\<lambda>row d. row ''feature_date'' = Some (Date d)) df dates"
  unfolding date_column_def
proof (rule sequence_map_Inr, rule ballI)
  fix row assume "row \<in> set df"
  with assms have "well_formed_row row" by (simp add: list_all_iff)
  from well_formed_rowD [OF this] obtain t where "row ''feature_date'' = Some (Date t)"
    by auto
  then show "\<exists>v. (case row ''feature_date'' of None \<Rightarrow> Inl KeyError
                    | Some (Number x) \<Rightarrow> Inl TypeError | Some (Date d) \<Rightarrow> Inr d) = Inr v
                \<and> row ''feature_date'' = Some (Date v)"
    by simp
qed

lemma forecast_one_ok:
  assumes "\<forall>X. \<exists>p. predict X = Inr p"
  shows "\<exists>f. forecast_one predict cols fd row s d day = Inr f
           \<and> (Inr (fc_store_id f), Inr (fc_dept_id f), fc_forecast_date f) =
               (Inr s :: py_error + int, Inr d :: py_error + int, day)"
proof -
  from assms obtain p where
    "predict (feature_vector cols (build_feature_row cols row day)) = Inr p"
    by auto
  then show ?thesis
    by (simp add: forecast_one_def Let_def)
qed

lemma forecasts_for_row_ok:
  assumes wf: "well_formed_row row" and total: "\<forall>X. \<exists>p. predict X = Inr p"
  shows "\<exists>fs. forecasts_for_row predict cols fd row = Inr fs
           \<and> map (\<lambda>f. (Inr (fc_store_id f), Inr (fc_dept_id f), fc_forecast_date f)) fs =
               map (\<lambda>day. (py_int row ''store_id'', py_int row ''dept_id'', day)) fd"
proof -
  from well_formed_rowD [OF wf] obtain a b where
    ab: "row ''store_id'' = Some (Number a)" "row ''dept_id'' = Some (Number b)"
    by auto
  obtain s d where sd: "py_int row ''store_id'' = Inr s" "py_int row ''dept_id'' = Inr d"
    using ab by (simp add: py_int_def)
  have "\<forall>day\<in>set fd. \<exists>f. forecast_one predict cols fd row s d day = Inr f
           \<and> (Inr (fc_store_id f), Inr (fc_dept_id f), fc_forecast_date f) =
               (py_int row ''store_id'', py_int row ''dept_id'', day)"
    unfolding sd using forecast_one_ok [OF total] by (intro ballI)
  from sequence_map_Inr [OF this] obtain fs where
    fs: "sequence (map (forecast_one predict cols fd row s d) fd) = Inr fs"
      "list_all2 (\<lambda>day f. (Inr (fc_store_id f), Inr (fc_dept_id f), fc_forecast_date f) =
               (py_int row ''store_id'', py_int row ''dept_id'', day)) fd fs"
    by (elim exE conjE)
  have "forecasts_for_row predict cols fd row = Inr fs"
    by (simp add: forecasts_for_row_def sd fs(1))
  moreover from fs(2) have
    "map (\<lambda>f. (Inr (fc_store_id f), Inr (fc_dept_id f), fc_forecast_date f)) fs =
     map (\<lambda>day. (py_int row ''store_id'', py_int row ''dept_id'', day)) fd"
    by (rule list_all2_map_eq)
  ultimately show ?thesis by (intro exI conjI)
qed

lemma length_concat_grid:
  "length (concat (map (\<lambda>row. map (g row) ws) df)) = length df * length ws"
  by (induction df) simp_all

lemma generate_predictions_unfold:
  assumes dates: "date_column features_df ''feature_date'' = Inr dates"
    and ne: "dates \<noteq> []" and weeks: "1 \<le> forecast_weeks"
  shows "generate_predictions predict feature_cols features_df forecast_weeks =
     (case sequence (map (forecasts_for_row predict feature_cols
                            (map (\<lambda>w. Max (set dates) + 7 * w) [1..forecast_weeks]))
                       features_df) of
        Inl e \<Rightarrow> Inl e
      | Inr all_forecasts \<Rightarrow> Inr (concat all_forecasts))"
proof -
  from weeks have up: "[1..forecast_weeks] = 1 # [2..forecast_weeks]"
    by (simp add: upto_rec1)
  have smax: "series_max dates = Some (Max (set dates))"
    using ne by (simp add: series_max_def)
  let ?future = "map (\<lambda>w. map_option (\<lambda>d. d + timedelta_weeks w) (series_max dates))
                   [1..forecast_weeks]"
  have fut: "?future = map (\<lambda>w. Some (Max (set dates) + 7 * w)) [1..forecast_weeks]"
    by (simp add: smax timedelta_weeks_def)
  have nonempty: "?future \<noteq> []"
    unfolding fut by (simp add: up)
  have first: "hd ?future \<noteq> None"
    unfolding fut by (simp add: up)
  have the_future: "map the ?future = map (\<lambda>w. Max (set dates) + 7 * w) [1..forecast_weeks]"
    unfolding fut by (simp add: comp_def)
  show ?thesis
    unfolding generate_predictions_def dates sum.case Let_def
    by (simp only: nonempty first the_future if_False)
qed

text \<open>
  Claim C10. For a non-empty frame of well-formed rows, at least one forecast week and a
  model that returns a prediction for every vector, \<open>generate_predictions\<close> returns; the
  forecast dates are the largest \<open>feature_date\<close> of the whole frame plus \<open>7 * w\<close> days for
  \<open>w = 1, ..., forecast_weeks\<close>, the same list for every row, whatever the row's own date;
  the forecasts come row by row in that order; and their number is the number of rows
  times \<open>forecast_weeks\<close>.
\<close>

theorem forecast_dates_global_grid:
  "features_df \<noteq> [] \<and> 1 \<le> forecast_weeks \<and> list_all well_formed_row features_df
   \<and> (\<forall>X. \<exists>p. predict X = Inr p) \<longrightarrow>
   (\<exists>dates out.
       date_column features_df ''feature_date'' = Inr dates
     \<and> map (\<lambda>row. row ''feature_date'') features_df = map (\<lambda>d. Some (Date d)) dates
     \<and> generate_predictions predict feature_cols features_df forecast_weeks = Inr out
     \<and> map (\<lambda>f. (Inr (fc_store_id f), Inr (fc_dept_id f), fc_forecast_date f)) out =
         concat (map (\<lambda>row. map (\<lambda>w. (py_int row ''store_id'', py_int row ''dept_id'',
                                        Max (set dates) + 7 * w))
                               [1..forecast_weeks]) features_df)
     \<and> length out = length features_df * nat forecast_weeks)"
proof
  assume h: "features_df \<noteq> [] \<and> 1 \<le> forecast_weeks \<and> list_all well_formed_row features_df
   \<and> (\<forall>X. \<exists>p. predict X = Inr p)"
  then have ne: "features_df \<noteq> []" and weeks: "1 \<le> forecast_weeks"
    and wf: "list_all well_formed_row features_df" and total: "\<forall>X. \<exists>p. predict X = Inr p"
    by (rule conjunct1, rule conjunct2 [THEN conjunct1],
        rule conjunct2 [THEN conjunct2, THEN conjunct1],
        rule conjunct2 [THEN conjunct2, THEN conjunct2])
  let ?key = "\<lambda>f. (Inr (fc_store_id f) :: py_error + int, Inr (fc_dept_id f) :: py_error + int,
                    fc_forecast_date f)"
  from date_column_well_formed [OF wf] obtain dates where
    dates: "date_column features_df ''feature_date'' = Inr dates" and
    rel: "list_all2 (\<lambda>row d. row ''feature_date'' = Some (Date d)) features_df dates"
    by (elim exE conjE)
  from rel have col: "map (\<lambda>row. row ''feature_date'') features_df = map (\<lambda>d. Some (Date d)) dates"
    by (induction rule: list_all2_induct) simp_all
  from rel have "length features_df = length dates" by (rule list_all2_lengthD)
  with ne have dne: "dates \<noteq> []" by auto
  let ?fd = "map (\<lambda>w. Max (set dates) + 7 * w) [1..forecast_weeks]"
  let ?h = "\<lambda>row. map (\<lambda>day. (py_int row ''store_id'', py_int row ''dept_id'', day)) ?fd"
  have "\<forall>row\<in>set features_df. \<exists>fs. forecasts_for_row predict feature_cols ?fd row = Inr fs
          \<and> map ?key fs = ?h row"
  proof
    fix row assume "row \<in> set features_df"
    with wf have "well_formed_row row" by (simp add: list_all_iff)
    then show "\<exists>fs. forecasts_for_row predict feature_cols ?fd row = Inr fs \<and> map ?key fs = ?h row"
      using total by (rule forecasts_for_row_ok)
  qed
  from sequence_map_Inr [OF this] obtain fss where
    fss: "sequence (map (forecasts_for_row predict feature_cols ?fd) features_df) = Inr fss"
      and all: "list_all2 (\<lambda>row fs. map ?key fs = ?h row) features_df fss"
    by (elim exE conjE)
  have out: "generate_predictions predict feature_cols features_df forecast_weeks = Inr (concat fss)"
    by (simp only: generate_predictions_unfold [OF dates dne weeks] fss sum.case)
  from all have "map ?key (concat fss) = concat (map ?h features_df)"
    by (rule list_all2_concat_eq)
  then have grid: "map ?key (concat fss) =
         concat (map (\<lambda>row. map (\<lambda>w. (py_int row ''store_id'', py_int row ''dept_id'',
                                        Max (set dates) + 7 * w))
                               [1..forecast_weeks]) features_df)"
    by (simp only: map_map comp_def)
  have "length (map ?key (concat fss)) = length features_df * length [1..forecast_weeks]"
    unfolding grid by (rule length_concat_grid)
  then have len: "length (concat fss) = length features_df * nat forecast_weeks"
    by simp
  show "\<exists>dates out.
       date_column features_df ''feature_date'' = Inr dates
     \<and> map (\<lambda>row. row ''feature_date'') features_df = map (\<lambda>d. Some (Date d)) dates
     \<and> generate_predictions predict feature_cols features_df forecast_weeks = Inr out
     \<and> map ?key out =
         concat (map (\<lambda>row. map (\<lambda>w. (py_int row ''store_id'', py_int row ''dept_id'',
                                        Max (set dates) + 7 * w))
                               [1..forecast_weeks]) features_df)
     \<and> length out = length features_df * nat forecast_weeks"
    by (intro exI conjI) (rule dates col out grid len)+
qed

theorem forecast_dates_global_grid_witness:
  "[[''store_id'' \<mapsto> Number 1, ''dept_id'' \<mapsto> Number 1, ''feature_date'' \<mapsto> Date 738883],
    [''store_id'' \<mapsto> Number 2, ''dept_id'' \<mapsto> Number 3, ''feature_date'' \<mapsto> Date 738800]] \<noteq> []
   \<and> (1 :: int) \<le> 2
   \<and> list_all well_formed_row
        [[''store_id'' \<mapsto> Number 1, ''dept_id'' \<mapsto> Number 1, ''feature_date'' \<mapsto> Date 738883],
         [''store_id'' \<mapsto> Number 2, ''dept_id'' \<mapsto> Number 3, ''feature_date'' \<mapsto> Date 738800]]
   \<and> (\<forall>X. \<exists>p. (\<lambda>X :: pyval list. Inr 1000 :: py_error + real) X = Inr p)
   \<and> (\<exists>out. generate_predictions (\<lambda>X. Inr 1000) [''sales_lag_1'']
        [[''store_id'' \<mapsto> Number 1, ''dept_id'' \<mapsto> Number 1, ''feature_date'' \<mapsto> Date 738883],
         [''store_id'' \<mapsto> Number 2, ''dept_id'' \<mapsto> Number 3, ''feature_date'' \<mapsto> Date 738800]] 2
          = Inr out
        \<and> map (\<lambda>f. (fc_store_id f, fc_dept_id f, fc_forecast_date f)) out =
            [(1, 1, 738890), (1, 1, 738897), (2, 3, 738890), (2, 3, 738897)]
        \<and> length out = 4)"
proof -
  let ?r1 = "[''store_id'' \<mapsto> Number 1, ''dept_id'' \<mapsto> Number 1, ''feature_date'' \<mapsto> Date 738883]"
  let ?r2 = "[''store_id'' \<mapsto> Number 2, ''dept_id'' \<mapsto> Number 3, ''feature_date'' \<mapsto> Date 738800]"
  let ?df = "[?r1, ?r2]"
  let ?predict = "\<lambda>X :: pyval list. Inr 1000 :: py_error + real"
  have ne: "?df \<noteq> []" by simp
  have weeks: "(1 :: int) \<le> 2" by simp
  have wf: "list_all well_formed_row ?df" by (simp add: well_formed_row_def)
  have total: "\<forall>X. \<exists>p. ?predict X = Inr p" by simp
  have col: "date_column ?df ''feature_date'' = Inr [738883, 738800]"
    by (simp add: date_column_def)
  have ids: "py_int ?r1 ''store_id'' = Inr 1" "py_int ?r1 ''dept_id'' = Inr 1"
    "py_int ?r2 ''store_id'' = Inr 2" "py_int ?r2 ''dept_id'' = Inr 3"
    by (simp_all add: py_int_def)
  have up: "[1..2 :: int] = [1, 2]" by (simp add: upto_rec1)
  have "\<exists>dates out.
       date_column ?df ''feature_date'' = Inr dates
     \<and> map (\<lambda>row. row ''feature_date'') ?df = map (\<lambda>d. Some (Date d)) dates
     \<and> generate_predictions ?predict [''sales_lag_1''] ?df 2 = Inr out
     \<and> map (\<lambda>f. (Inr (fc_store_id f), Inr (fc_dept_id f), fc_forecast_date f)) out =
         concat (map (\<lambda>row. map (\<lambda>w. (py_int row ''store_id'', py_int row ''dept_id'',
                                        Max (set dates) + 7 * w)) [1..2]) ?df)
     \<and> length out = length ?df * nat 2"
    by (rule forecast_dates_global_grid [THEN mp]) (intro conjI ne weeks wf total)
  then obtain dates out where all:
    "date_column ?df ''feature_date'' = Inr dates
     \<and> map (\<lambda>row. row ''feature_date'') ?df = map (\<lambda>d. Some (Date d)) dates
     \<and> generate_predictions ?predict [''sales_lag_1''] ?df 2 = Inr out
     \<and> map (\<lambda>f. (Inr (fc_store_id f) :: py_error + int, Inr (fc_dept_id f) :: py_error + int,
                    fc_forecast_date f)) out =
         concat (map (\<lambda>row. map (\<lambda>w. (py_int row ''store_id'', py_int row ''dept_id'',
                                        Max (set dates) + 7 * w)) [1..2]) ?df)
     \<and> length out = length ?df * nat 2"
    by (elim exE) (rule that)
  note d = all [THEN conjunct1]
    and o = all [THEN conjunct2, THEN conjunct2, THEN conjunct1]
    and g = all [THEN conjunct2, THEN conjunct2, THEN conjunct2, THEN conjunct1]
    and l = all [THEN conjunct2, THEN conjunct2, THEN conjunct2, THEN conjunct2]
  from d col have dates: "dates = [738883, 738800]" by simp
  have g': "map (\<lambda>f. (Inr (fc_store_id f) :: py_error + int, Inr (fc_dept_id f) :: py_error + int,
                    fc_forecast_date f)) out =
            [(Inr 1, Inr 1, 738890), (Inr 1, Inr 1, 738897), (Inr 2, Inr 3, 738890), (Inr 2, Inr 3, 738897)]"
    unfolding g dates up by (simp add: ids)
  have "map (\<lambda>f. (fc_store_id f, fc_dept_id f, fc_forecast_date f)) out =
        map (\<lambda>(a, b, c). (projr a, projr b, c))
          (map (\<lambda>f. (Inr (fc_store_id f) :: py_error + int, Inr (fc_dept_id f) :: py_error + int,
                    fc_forecast_date f)) out)"
    by (simp add: comp_def)
  also have "\<dots> = [(1, 1, 738890), (1, 1, 738897), (2, 3, 738890), (2, 3, 738897)]"
    unfolding g' by simp
  finally have keys: "map (\<lambda>f. (fc_store_id f, fc_dept_id f, fc_forecast_date f)) out =
        [(1, 1, 738890), (1, 1, 738897), (2, 3, 738890), (2, 3, 738897)]" .
  from l have len: "length out = 4" by simp
  from o keys len have "\<exists>out. generate_predictions ?predict [''sales_lag_1''] ?df 2 = Inr out
        \<and> map (\<lambda>f. (fc_store_id f, fc_dept_id f, fc_forecast_date f)) out =
            [(1, 1, 738890), (1, 1, 738897), (2, 3, 738890), (2, 3, 738897)]
        \<and> length out = 4"
    by (intro exI conjI)
  with ne weeks wf total show ?thesis by (intro conjI)
qed

lemma build_feature_row_keeps_base:
  assumes "c \<notin> {''week_of_year'', ''month'', ''quarter'', ''year'', ''day_of_week'',
                 ''day_of_month'', ''day_of_year'', ''is_month_start'', ''is_month_end'',
                 ''is_quarter_start'', ''is_quarter_end''}"
  shows "build_feature_row feature_cols row forecast_date c = row c"
  using assms by (simp add: build_feature_row_def Let_def)

lemma build_feature_row_calendar:
  "build_feature_row feature_cols row forecast_date ''week_of_year'' =
     Some (num (isocalendar_week forecast_date))"
  "build_feature_row feature_cols row forecast_date ''month'' = Some (num (month_of forecast_date))"
  "build_feature_row feature_cols row forecast_date ''quarter'' = Some (num (dt_quarter forecast_date))"
  "build_feature_row feature_cols row forecast_date ''is_month_start'' =
     Some (flag (day_of forecast_date \<le> 7))"
  "build_feature_row feature_cols row forecast_date ''is_month_end'' =
     Some (flag (day_of forecast_date \<ge> 24))"
  by (simp_all add: build_feature_row_def Let_def dt_quarter_def)

lemma create_temporal_features_row:
  "map snd (create_temporal_features dt [(r, c)]) =
     [c(week_of_year \<mapsto> Integer (isocalendar_week (dt r)),
        month \<mapsto> Integer (month_of (dt r)),
        quarter \<mapsto> Integer (dt_quarter (dt r)),
        is_month_start \<mapsto> Boolean (dt_is_month_start (dt r)),
        is_month_end \<mapsto> Boolean (dt_is_month_end (dt r)))]"
  by (simp add: create_temporal_features_def Let_def assign_def)

text \<open>
  Claim C5. The feature row keeps every column outside the calendar fields
  (\<open>build_feature_row_keeps_base\<close>), and its week, month and quarter are those of the
  forecast date, as \<open>create_temporal_features\<close> computes them. The two month flags are not:
  the forecast path sets \<open>is_month_start\<close> for a day of month up to 7 and \<open>is_month_end\<close>
  from day 24 on, where \<open>create_temporal_features\<close> marks only the first and the last day of
  the month. On 2024-01-05 and 2024-01-26, the first and fourth weekly forecast dates after
  a latest observation on 2023-12-29, the two paths disagree.
\<close>

theorem forecast_month_flags_diverge:
  "ord2ymd 738890 = (2024, 1, 5)
   \<and> build_feature_row feature_cols row 738890 ''is_month_start'' = Some (Number 1)
   \<and> map (\<lambda>(r, c). c is_month_start) (create_temporal_features id [(738890, Map.empty)]) =
       [Some (Boolean False)]
   \<and> ord2ymd 738911 = (2024, 1, 26)
   \<and> build_feature_row feature_cols row 738911 ''is_month_end'' = Some (Number 1)
   \<and> map (\<lambda>(r, c). c is_month_end) (create_temporal_features id [(738911, Map.empty)]) =
       [Some (Boolean False)]"
proof -
  have a: "ord2ymd 738890 = (2024, 1, 5)" by code_simp
  have b: "ord2ymd 738911 = (2024, 1, 26)" by code_simp
  have da: "day_of 738890 = 5" by (simp add: day_of_def a)
  have db: "day_of 738911 = 26" by (simp add: day_of_def b)
  have ea: "dt_is_month_start 738890 = False" by (simp add: dt_is_month_start_def da)
  have "days_in_month 2024 1 = 31" by code_simp
  then have eb: "dt_is_month_end 738911 = False"
    by (simp add: dt_is_month_end_def db year_of_def month_of_def b)
  have fa: "build_feature_row feature_cols row 738890 ''is_month_start'' = Some (Number 1)"
    by (simp add: build_feature_row_calendar da flag_def)
  have fb: "build_feature_row feature_cols row 738911 ''is_month_end'' = Some (Number 1)"
    by (simp add: build_feature_row_calendar db flag_def)
  have ta: "map (\<lambda>(r, c). c is_month_start) (create_temporal_features id [(738890, Map.empty)]) =
       [Some (Boolean False)]"
    using create_temporal_features_row [of id 738890 Map.empty]
    by (cases "create_temporal_features id [(738890 :: int, Map.empty)]")
       (auto simp: ea)
  have tb: "map (\<lambda>(r, c). c is_month_end) (create_temporal_features id [(738911, Map.empty)]) =
       [Some (Boolean False)]"
    using create_temporal_features_row [of id 738911 Map.empty]
    by (cases "create_temporal_features id [(738911 :: int, Map.empty)]")
       (auto simp: eb)
  show ?thesis by (intro conjI a fa ta b fb tb)
qed

theorem forecast_month_flags_diverge_witness:
  "ord2ymd 738890 = (2024, 1, 5)
   \<and> build_feature_row [''is_month_start'', ''is_month_end'']
        [''is_month_start'' \<mapsto> Number 0, ''is_month_end'' \<mapsto> Number 0] 738890 ''is_month_start'' =
       Some (Number 1)
   \<and> map (\<lambda>(r, c). c is_month_start) (create_temporal_features id [(738890, Map.empty)]) =
       [Some (Boolean False)]
   \<and> ord2ymd 738911 = (2024, 1, 26)
   \<and> build_feature_row [''is_month_start'', ''is_month_end'']
        [''is_month_start'' \<mapsto> Number 0, ''is_month_end'' \<mapsto> Number 0] 738911 ''is_month_end'' =
       Some (Number 1)
   \<and> map (\<lambda>(r, c). c is_month_end) (create_temporal_features id [(738911, Map.empty)]) =
       [Some (Boolean False)]"
  by (rule forecast_month_flags_diverge)

section \<open>Properties of the forecast write\<close>

text \<open>
  Claim C6. The claim asks for an all-or-nothing replacement. The source commits the
  delete before it starts the insert: when the insert fails, the table is left empty, with
  the old forecasts gone and the new ones absent, and even a run without any failure
  passes through the committed empty table.
\<close>

theorem write_forecasts_not_atomic:
  "write_forecasts (Some InsertFails) [2 :: nat] [1] = (Inl DatabaseError, [[1], []])
   \<and> last (snd (write_forecasts (Some InsertFails) [2 :: nat] [1])) \<noteq> [1]
   \<and> last (snd (write_forecasts (Some InsertFails) [2 :: nat] [1])) \<noteq> [2]
   \<and> snd (write_forecasts None [2 :: nat] [1]) = [[1], [], [2]]"
  by (simp add: write_forecasts_def execute_delete_def to_sql_append_def)

text \<open>
  Claim C6, as the code has it: \<open>write_forecasts\<close> replaces the table in two committed
  steps. If the delete fails the table keeps its prior rows; if the insert fails the table
  stays empty; if neither fails it ends with exactly the new rows, after having been empty
  in between. It returns normally only in the last case.
\<close>

theorem write_forecasts_two_steps:
  "snd (write_forecasts fault forecast_df table) =
     (case fault of
        None \<Rightarrow> [table, [], forecast_df]
      | Some DeleteFails \<Rightarrow> [table]
      | Some InsertFails \<Rightarrow> [table, []])
   \<and> fst (write_forecasts fault forecast_df table) =
     (case fault of None \<Rightarrow> Inr () | Some f \<Rightarrow> Inl DatabaseError)"
proof (cases fault)
  case None
  then show ?thesis
    by (simp add: write_forecasts_def execute_delete_def to_sql_append_def)
next
  case (Some f)
  then show ?thesis
    by (cases f) (simp_all add: write_forecasts_def execute_delete_def to_sql_append_def)
qed

theorem write_forecasts_two_steps_witness:
  "snd (write_forecasts (Some InsertFails) [2 :: nat] [1]) =
     (case Some InsertFails of
        None \<Rightarrow> [[1], [], [2]]
      | Some DeleteFails \<Rightarrow> [[1]]
      | Some InsertFails \<Rightarrow> [[1], []])
   \<and> fst (write_forecasts (Some InsertFails) [2 :: nat] [1]) =
     (case Some InsertFails of None \<Rightarrow> Inr () | Some f \<Rightarrow> Inl DatabaseError)"
  by (rule write_forecasts_two_steps)

section \<open>Properties of training\<close>

lemma train_fitted_store:
  "train_fitted (env\<lparr>metadata_store_up := up\<rparr>) self table booster X y h val =
     (case evaluate_model (float_sqrt env) y (map (booster_predict env booster) X) h of
        Inl e \<Rightarrow> (Inl e, self, table)
      | Inr train_metrics \<Rightarrow>
          (case (case val of
                   None \<Rightarrow> Inr train_metrics
                 | Some (vcols, X_val, y_val, is_holiday_val) \<Rightarrow>
                     evaluate_model (float_sqrt env) y_val
                       (map (booster_predict env booster) X_val) is_holiday_val) of
             Inl e \<Rightarrow> (Inl e, self, table)
           | Inr reported \<Rightarrow>
               (let self' = self\<lparr>feature_importance :=
                      Some (sort_key (\<lambda>(f, g). - g)
                              (zip (case feature_names self of None \<Rightarrow> [] | Some ns \<Rightarrow> ns)
                                   (booster_gain env booster)))\<rparr>
                in if up
                   then (Inr reported, self',
                         table @ [\<lparr>md_run_id = mlflow_run_id env,
                                   md_model_name = ''lightgbm_forecaster'',
                                   md_model_version = ''v1.0'', md_wmae = wmae reported,
                                   md_mae = mae reported, md_rmse = rmse reported,
                                   md_training_date = clock_now env,
                                   md_parameters = params_json env,
                                   md_feature_importance = feature_importance self'\<rparr>])
                   else (Inl DatabaseError, self', table))))"
  by (simp add: train_fitted_def save_model_metadata_def Let_def split: sum.splits option.splits)

lemma train_fitted_failure:
  assumes "fst (train_fitted (env\<lparr>metadata_store_up := True\<rparr>) self table booster X y h val) = Inr reported"
  shows "\<exists>self'. train_fitted (env\<lparr>metadata_store_up := False\<rparr>) self table booster X y h val =
            (Inl DatabaseError, self', table)
         \<and> fst (snd (train_fitted (env\<lparr>metadata_store_up := True\<rparr>) self table booster X y h val)) = self'
         \<and> model self' = model self"
  using assms unfolding train_fitted_store
  by (auto simp: Let_def split: sum.splits option.splits prod.splits)

text \<open>
  Claim C7, as the code has it: whenever a call of \<open>train\<close> returns its metrics with the
  metadata store up, the same call with the store down does not return them: the
  exception of the metadata write leaves \<open>train\<close>, the metadata table is unchanged, and the
  forecaster object is left as in the successful run, with the fitted booster in
  \<open>self.model\<close>.
\<close>

theorem train_metadata_failure_raises:
  "fst (train (env\<lparr>metadata_store_up := True\<rparr>) self table train_df val_df) = Inr reported \<longrightarrow>
   (\<exists>self'. train (env\<lparr>metadata_store_up := False\<rparr>) self table train_df val_df =
              (Inl DatabaseError, self', table)
          \<and> fst (snd (train (env\<lparr>metadata_store_up := True\<rparr>) self table train_df val_df)) = self'
          \<and> model self' \<noteq> None)"
proof
  assume ok: "fst (train (env\<lparr>metadata_store_up := True\<rparr>) self table train_df val_df) = Inr reported"
  show "\<exists>self'. train (env\<lparr>metadata_store_up := False\<rparr>) self table train_df val_df =
              (Inl DatabaseError, self', table)
          \<and> fst (snd (train (env\<lparr>metadata_store_up := True\<rparr>) self table train_df val_df)) = self'
          \<and> model self' \<noteq> None"
  proof (cases "prepare_data train_df")
    case (Inl e)
    with ok show ?thesis by (simp add: train_def)
  next
    case p: (Inr prepared)
    obtain cols X y h where prepared: "prepared = (cols, X, y, h)"
      by (cases prepared) auto
    show ?thesis
    proof (cases "prepare_validation val_df")
      case (Inl e)
      with ok p prepared show ?thesis by (simp add: train_def Let_def)
    next
      case v: (Inr val)
      let ?self = "case val of None \<Rightarrow> self\<lparr>feature_names := Some cols\<rparr>
                   | Some (vcols, rest) \<Rightarrow> self\<lparr>feature_names := Some cols, feature_names := Some vcols\<rparr>"
      let ?valarg = "map_option (\<lambda>(vcols, X_val, y_val, h). (X_val, y_val)) val"
      show ?thesis
      proof (cases "lgb_train env X y ?valarg")
        case (Inl e)
        with ok p prepared v show ?thesis by (simp add: train_def Let_def)
      next
        case b: (Inr booster)
        have run: "train (env\<lparr>metadata_store_up := up\<rparr>) self table train_df val_df =
              train_fitted (env\<lparr>metadata_store_up := up\<rparr>)
                ((case val of None \<Rightarrow> self\<lparr>feature_names := Some cols\<rparr>
                  | Some (vcols, rest) \<Rightarrow> self\<lparr>feature_names := Some vcols\<rparr>)\<lparr>model := Some booster\<rparr>)
                table booster X y h val" for up
          using p prepared v b
          by (cases val) (auto simp: train_def Let_def split: prod.splits)
        from ok have "fst (train_fitted (env\<lparr>metadata_store_up := True\<rparr>)
                ((case val of None \<Rightarrow> self\<lparr>feature_names := Some cols\<rparr>
                  | Some (vcols, rest) \<Rightarrow> self\<lparr>feature_names := Some vcols\<rparr>)\<lparr>model := Some booster\<rparr>)
                table booster X y h val) = Inr reported"
          by (simp only: run)
        from train_fitted_failure [OF this] obtain self' where
          s: "train_fitted (env\<lparr>metadata_store_up := False\<rparr>)
                ((case val of None \<Rightarrow> self\<lparr>feature_names := Some cols\<rparr>
                  | Some (vcols, rest) \<Rightarrow> self\<lparr>feature_names := Some vcols\<rparr>)\<lparr>model := Some booster\<rparr>)
                table booster X y h val = (Inl DatabaseError, self', table)
            \<and> fst (snd (train_fitted (env\<lparr>metadata_store_up := True\<rparr>)
                ((case val of None \<Rightarrow> self\<lparr>feature_names := Some cols\<rparr>
                  | Some (vcols, rest) \<Rightarrow> self\<lparr>feature_names := Some vcols\<rparr>)\<lparr>model := Some booster\<rparr>)
                table booster X y h val)) = self'
            \<and> model self' = model ((case val of None \<Rightarrow> self\<lparr>feature_names := Some cols\<rparr>
                  | Some (vcols, rest) \<Rightarrow> self\<lparr>feature_names := Some vcols\<rparr>)\<lparr>model := Some booster\<rparr>)"
          by (elim exE) (rule that)
        then have "model self' \<noteq> None" by simp
        with s show ?thesis
          unfolding run by (intro exI [of _ self'] conjI) (simp_all only: simp_thms)
      qed
    qed
  qed
qed

theorem train_metadata_failure_raises_witness:
  "fst (train
      (\<lparr>lgb_train = \<lambda>X y v. Inr (), booster_predict = \<lambda>m x. 100, booster_gain = \<lambda>m. [1],
         mlflow_run_id = ''run'', clock_now = 0, params_json = ''{}'', float_sqrt = sqrt,
         metadata_store_up = False\<rparr>\<lparr>metadata_store_up := True\<rparr>)
      \<lparr>model = None, feature_names = None, feature_importance = None\<rparr> []
      \<lparr>columns = [''weekly_sales'', ''sales_lag_1''], frame_rows = [\<lambda>c. 100]\<rparr> None)
     = Inr \<lparr>wmae = Num 0, mae = Num 0, rmse = Num 0, mape = Num 0\<rparr>
   \<and> (\<exists>self'. train
      (\<lparr>lgb_train = \<lambda>X y v. Inr (), booster_predict = \<lambda>m x. 100, booster_gain = \<lambda>m. [1],
         mlflow_run_id = ''run'', clock_now = 0, params_json = ''{}'', float_sqrt = sqrt,
         metadata_store_up = False\<rparr>\<lparr>metadata_store_up := False\<rparr>)
      \<lparr>model = None, feature_names = None, feature_importance = None\<rparr> []
      \<lparr>columns = [''weekly_sales'', ''sales_lag_1''], frame_rows = [\<lambda>c. 100]\<rparr> None
        = (Inl DatabaseError, self', [])
      \<and> fst (snd (train
      (\<lparr>lgb_train = \<lambda>X y v. Inr (), booster_predict = \<lambda>m x. 100, booster_gain = \<lambda>m. [1],
         mlflow_run_id = ''run'', clock_now = 0, params_json = ''{}'', float_sqrt = sqrt,
         metadata_store_up = False\<rparr>\<lparr>metadata_store_up := True\<rparr>)
      \<lparr>model = None, feature_names = None, feature_importance = None\<rparr> []
      \<lparr>columns = [''weekly_sales'', ''sales_lag_1''], frame_rows = [\<lambda>c. 100]\<rparr> None)) = self'
      \<and> model self' \<noteq> None)"
proof -
  let ?env = "\<lparr>lgb_train = \<lambda>X y v. Inr (), booster_predict = \<lambda>m x. 100, booster_gain = \<lambda>m. [1],
         mlflow_run_id = ''run'', clock_now = 0, params_json = ''{}'', float_sqrt = sqrt,
         metadata_store_up = False\<rparr> :: unit environment"
  let ?self = "\<lparr>model = None, feature_names = None, feature_importance = None\<rparr> :: unit forecaster"
  let ?df = "\<lparr>columns = [''weekly_sales'', ''sales_lag_1''], frame_rows = [\<lambda>c. 100]\<rparr>"
  have ok: "fst (train (?env\<lparr>metadata_store_up := True\<rparr>) ?self [] ?df None)
     = Inr \<lparr>wmae = Num 0, mae = Num 0, rmse = Num 0, mape = Num 0\<rparr>"
    by (simp add: train_def train_fitted_def prepare_data_def prepare_validation_def
      exclude_cols_def evaluate_model_def calculate_wmae_def np_binop_def np_where_weights_def
      holiday_weight_def np_div_def calculate_mae_def calculate_rmse_def calculate_mape_def
      save_model_metadata_def Let_def)
  have "\<exists>self'. train (?env\<lparr>metadata_store_up := False\<rparr>) ?self [] ?df None
        = (Inl DatabaseError, self', [])
      \<and> fst (snd (train (?env\<lparr>metadata_store_up := True\<rparr>) ?self [] ?df None)) = self'
      \<and> model self' \<noteq> None"
    by (rule train_metadata_failure_raises [THEN mp]) (rule ok)
  with ok show ?thesis by (intro conjI)
qed

text \<open>
  Claim C7. The claim asks that a failure of the metadata write be logged and not raised.
  \<open>train\<close> calls \<open>_save_model_metadata\<close> without a handler: a run on a one-row frame that
  returns its metrics when the store is up raises the store's error when it is down.
\<close>

theorem train_metadata_failure_counterexample:
  "fst (train
      \<lparr>lgb_train = \<lambda>X y v. Inr (), booster_predict = \<lambda>m x. 100, booster_gain = \<lambda>m. [1],
        mlflow_run_id = ''run'', clock_now = 0, params_json = ''{}'', float_sqrt = sqrt,
        metadata_store_up = True\<rparr>
      \<lparr>model = None, feature_names = None, feature_importance = None\<rparr> []
      \<lparr>columns = [''weekly_sales'', ''sales_lag_1''], frame_rows = [\<lambda>c. 100]\<rparr> None)
     = Inr \<lparr>wmae = Num 0, mae = Num 0, rmse = Num 0, mape = Num 0\<rparr>
   \<and> fst (train
      \<lparr>lgb_train = \<lambda>X y v. Inr (), booster_predict = \<lambda>m x. 100, booster_gain = \<lambda>m. [1],
        mlflow_run_id = ''run'', clock_now = 0, params_json = ''{}'', float_sqrt = sqrt,
        metadata_store_up = False\<rparr>
      \<lparr>model = None, feature_names = None, feature_importance = None\<rparr> []
      \<lparr>columns = [''weekly_sales'', ''sales_lag_1''], frame_rows = [\<lambda>c. 100]\<rparr> None)
     = Inl DatabaseError"
  by (simp add: train_def train_fitted_def prepare_data_def prepare_validation_def
      exclude_cols_def evaluate_model_def calculate_wmae_def np_binop_def np_where_weights_def
      holiday_weight_def np_div_def calculate_mae_def calculate_rmse_def calculate_mape_def
      save_model_metadata_def Let_def)

end
